theory Spec2Isabelle
  imports Main "HOL-Library.AList"
begin

text \<open>
  The rate-limit gate, the block gate and the registration endpoint of the
  backend (database manager and server), and the event queue of the analytics
  client, as functions on explicit state: the tables of the database, the
  server's map of attempts, the client's queues and the requests it hands to
  the browser.
\<close>

section \<open>Time\<close>

text \<open>
  The code reads the wall clock with \<^verbatim>\<open>new Date()\<close> and \<^verbatim>\<open>Date.now()\<close> and
  stores instants as ISO strings of millisecond precision, which
  \<^verbatim>\<open>new Date(string)\<close> reads back unchanged. An instant is therefore modelled
  as its number of milliseconds since the epoch, and every function that reads
  the clock takes the instant \<open>now\<close> as an argument.
\<close>

type_synonym timestamp = int

section \<open>Table \<^verbatim>\<open>rate_limits\<close> and the rate-limit gate (database manager)\<close>

text \<open>
  A row of \<^verbatim>\<open>rate_limits\<close>. The column \<^verbatim>\<open>key\<close> is declared UNIQUE, so
  the table is a map from keys to rows; the autoincrement \<^verbatim>\<open>id\<close> is read by no
  statement and is left out.
\<close>

record rate_limit_row =
  rl_count :: int
  window_start :: timestamp
  last_request :: timestamp

type_synonym rate_limits_table = "string \<rightharpoonup> rate_limit_row"

text \<open>\<^verbatim>\<open>SELECT * FROM rate_limits WHERE key = ?\<close>\<close>

definition getRateLimit :: "rate_limits_table \<Rightarrow> string \<Rightarrow> rate_limit_row option" where
  "getRateLimit tbl key = tbl key"

text \<open>
  \<^verbatim>\<open>INSERT INTO rate_limits (key, count, window_start, last_request)
  VALUES (@key, 1, @window_start, @last_request)
  ON CONFLICT(key) DO UPDATE SET count = count + 1, last_request = @last_request\<close>
\<close>

definition upsertRateLimit ::
  "rate_limits_table \<Rightarrow> string \<Rightarrow> timestamp \<Rightarrow> timestamp \<Rightarrow> rate_limits_table" where
  "upsertRateLimit tbl key ws lr =
     (case tbl key of
        None \<Rightarrow> tbl(key \<mapsto> \<lparr>rl_count = 1, window_start = ws, last_request = lr\<rparr>)
      | Some row \<Rightarrow> tbl(key \<mapsto> row\<lparr>rl_count := rl_count row + 1, last_request := lr\<rparr>))"

text \<open>\<^verbatim>\<open>UPDATE rate_limits SET count = 1, window_start = ? WHERE key = ?\<close>\<close>

definition resetRateLimit ::
  "rate_limits_table \<Rightarrow> timestamp \<Rightarrow> string \<Rightarrow> rate_limits_table" where
  "resetRateLimit tbl ws key =
     (case tbl key of
        None \<Rightarrow> tbl
      | Some row \<Rightarrow> tbl(key \<mapsto> row\<lparr>rl_count := 1, window_start := ws\<rparr>))"

text \<open>
  The object \<^verbatim>\<open>checkRateLimit\<close> returns: \<^verbatim>\<open>retryAfter\<close> is present only on
  a denial.
\<close>

record rate_limit_result =
  allowed :: bool
  remaining :: int
  retryAfter :: "int option"

text \<open>
  \<^verbatim>\<open>DatabaseManager.checkRateLimit(key, maxRequests, windowMs)\<close>, branch by
  branch: no row, expired window (\<^verbatim>\<open>existingWindowStart < windowStart\<close>, a strict
  comparison), limit reached, and the counted request.
\<close>

definition checkRateLimit ::
  "rate_limits_table \<Rightarrow> timestamp \<Rightarrow> string \<Rightarrow> int \<Rightarrow> int
     \<Rightarrow> rate_limits_table \<times> rate_limit_result" where
  "checkRateLimit tbl now key maxRequests windowMs =
     (let windowStart = now - windowMs in
      case getRateLimit tbl key of
        None \<Rightarrow>
          (upsertRateLimit tbl key now now,
           \<lparr>allowed = True, remaining = maxRequests - 1, retryAfter = None\<rparr>)
      | Some existing \<Rightarrow>
          let existingWindowStart = window_start existing in
          if existingWindowStart < windowStart then
            (resetRateLimit tbl now key,
             \<lparr>allowed = True, remaining = maxRequests - 1, retryAfter = None\<rparr>)
          else if rl_count existing \<ge> maxRequests then
            (tbl,
             \<lparr>allowed = False, remaining = 0,
              retryAfter = Some (windowMs - (now - existingWindowStart))\<rparr>)
          else
            (upsertRateLimit tbl key (window_start existing) now,
             \<lparr>allowed = True, remaining = maxRequests - rl_count existing - 1,
              retryAfter = None\<rparr>))"

text \<open>
  A sequence of calls for one key with the same limit and window, one call per
  instant of the list, each on the table the previous call left.
\<close>

fun checkRateLimit_calls ::
  "rate_limits_table \<Rightarrow> string \<Rightarrow> int \<Rightarrow> int \<Rightarrow> timestamp list
     \<Rightarrow> rate_limits_table \<times> rate_limit_result list" where
  "checkRateLimit_calls tbl key maxRequests windowMs [] = (tbl, [])"
| "checkRateLimit_calls tbl key maxRequests windowMs (t # ts) =
     (let (tbl1, r) = checkRateLimit tbl t key maxRequests windowMs;
          (tbl2, rs) = checkRateLimit_calls tbl1 key maxRequests windowMs ts
      in (tbl2, r # rs))"

text \<open>
  A call at \<open>now\<close> opens a new window for \<open>key\<close> when the key has no row or
  its row is expired at \<open>now\<close>.
\<close>

definition opens_window :: "rate_limits_table \<Rightarrow> timestamp \<Rightarrow> string \<Rightarrow> int \<Rightarrow> bool" where
  "opens_window tbl now key windowMs =
     (case tbl key of None \<Rightarrow> True | Some row \<Rightarrow> window_start row < now - windowMs)"

text \<open>
  The prepared statements that \<^verbatim>\<open>checkRateLimit\<close> runs on \<^verbatim>\<open>rate_limits\<close>, and
  their effect on the table.
\<close>

datatype rate_limit_statement =
  GetRateLimit string
  | UpsertRateLimit string timestamp timestamp
  | ResetRateLimit timestamp string

definition run_statement :: "rate_limits_table \<Rightarrow> rate_limit_statement \<Rightarrow> rate_limits_table" where
  "run_statement tbl s =
     (case s of
        GetRateLimit key \<Rightarrow> tbl
      | UpsertRateLimit key ws lr \<Rightarrow> upsertRateLimit tbl key ws lr
      | ResetRateLimit ws key \<Rightarrow> resetRateLimit tbl ws key)"

definition run_statements :: "rate_limits_table \<Rightarrow> rate_limit_statement list \<Rightarrow> rate_limits_table" where
  "run_statements tbl ss = fold (\<lambda>s t. run_statement t s) ss tbl"

text \<open>
  \<^verbatim>\<open>checkRateLimit\<close> from the row its \<^verbatim>\<open>SELECT\<close> returned: the write it
  runs, if any, and the object it returns, with the branches of the source in
  their order.
\<close>

definition checkRateLimit_after_read ::
  "rate_limit_row option \<Rightarrow> timestamp \<Rightarrow> string \<Rightarrow> int \<Rightarrow> int
     \<Rightarrow> rate_limit_statement list \<times> rate_limit_result" where
  "checkRateLimit_after_read existing0 now key maxRequests windowMs =
     (let windowStart = now - windowMs in
      case existing0 of
        None \<Rightarrow>
          ([UpsertRateLimit key now now],
           \<lparr>allowed = True, remaining = maxRequests - 1, retryAfter = None\<rparr>)
      | Some existing \<Rightarrow>
          let existingWindowStart = window_start existing in
          if existingWindowStart < windowStart then
            ([ResetRateLimit now key],
             \<lparr>allowed = True, remaining = maxRequests - 1, retryAfter = None\<rparr>)
          else if rl_count existing \<ge> maxRequests then
            ([],
             \<lparr>allowed = False, remaining = 0,
              retryAfter = Some (windowMs - (now - existingWindowStart))\<rparr>)
          else
            ([UpsertRateLimit key (window_start existing) now],
             \<lparr>allowed = True, remaining = maxRequests - rl_count existing - 1,
              retryAfter = None\<rparr>))"

text \<open>
  The statements one call runs, in order: the \<^verbatim>\<open>SELECT\<close>, then the write.
  Nothing wraps them in a transaction (the manager's \<^verbatim>\<open>transaction\<close> has no
  caller).
\<close>

definition checkRateLimit_statements ::
  "rate_limits_table \<Rightarrow> timestamp \<Rightarrow> string \<Rightarrow> int \<Rightarrow> int \<Rightarrow> rate_limit_statement list" where
  "checkRateLimit_statements tbl now key maxRequests windowMs =
     GetRateLimit key
       # fst (checkRateLimit_after_read (getRateLimit tbl key) now key maxRequests windowMs)"

text \<open>
  Two calls for one key of which both run their \<^verbatim>\<open>SELECT\<close> before either
  runs its write: the order of statements that the claim about concurrent calls
  is about.
\<close>

definition checkRateLimit_reads_first ::
  "rate_limits_table \<Rightarrow> timestamp \<Rightarrow> timestamp \<Rightarrow> string \<Rightarrow> int \<Rightarrow> int
     \<Rightarrow> rate_limits_table \<times> rate_limit_result \<times> rate_limit_result" where
  "checkRateLimit_reads_first tbl now1 now2 key maxRequests windowMs =
     (let existing1 = getRateLimit tbl key;
          existing2 = getRateLimit tbl key;
          (writes1, r1) = checkRateLimit_after_read existing1 now1 key maxRequests windowMs;
          (writes2, r2) = checkRateLimit_after_read existing2 now2 key maxRequests windowMs
      in (run_statements (run_statements tbl writes1) writes2, r1, r2))"

section \<open>Table \<^verbatim>\<open>ip_blocks\<close> and the block gate (database manager)\<close>

text \<open>
  Modelled from the spec: the \<^verbatim>\<open>CREATE TABLE\<close> statement of \<^verbatim>\<open>ip_blocks\<close> is
  not among the tables of the schema. The columns are the ones the prepared
  statements name; \<^verbatim>\<open>ip\<close> is the conflict target of the upsert, hence unique,
  and the table is a map from addresses to rows; \<^verbatim>\<open>blocked_at\<close>, which the
  insert leaves to the column's default, is "the timestamp of the block's
  (re-)creation".
\<close>

record ip_block_row =
  blocked_at :: timestamp
  blocked_until :: timestamp
  block_reason :: string
  block_attempts :: int

type_synonym ip_blocks_table = "string \<rightharpoonup> ip_block_row"

text \<open>\<^verbatim>\<open>SELECT * FROM ip_blocks WHERE ip = ?\<close>\<close>

definition getIPBlock :: "ip_blocks_table \<Rightarrow> string \<Rightarrow> ip_block_row option" where
  "getIPBlock tbl ip = tbl ip"

text \<open>
  \<^verbatim>\<open>INSERT INTO ip_blocks (ip, blocked_until, reason, attempts)
  VALUES (@ip, @blocked_until, @reason, @attempts)
  ON CONFLICT(ip) DO UPDATE SET blocked_at = CURRENT_TIMESTAMP,
  blocked_until = @blocked_until, reason = @reason, attempts = attempts + 1\<close>
\<close>

definition insertIPBlock ::
  "ip_blocks_table \<Rightarrow> timestamp \<Rightarrow> string \<Rightarrow> timestamp \<Rightarrow> string \<Rightarrow> int
     \<Rightarrow> ip_blocks_table" where
  "insertIPBlock tbl now ip until reason attempts0 =
     (case tbl ip of
        None \<Rightarrow>
          tbl(ip \<mapsto> \<lparr>blocked_at = now, blocked_until = until, block_reason = reason,
                     block_attempts = attempts0\<rparr>)
      | Some row \<Rightarrow>
          tbl(ip \<mapsto> row\<lparr>blocked_at := now, blocked_until := until, block_reason := reason,
                        block_attempts := block_attempts row + 1\<rparr>))"

text \<open>\<^verbatim>\<open>DELETE FROM ip_blocks WHERE ip = ?\<close>, with the number of rows deleted.\<close>

definition deleteIPBlock :: "ip_blocks_table \<Rightarrow> string \<Rightarrow> ip_blocks_table \<times> nat" where
  "deleteIPBlock tbl ip = (tbl(ip := None), (case tbl ip of None \<Rightarrow> 0 | Some _ \<Rightarrow> 1))"

text \<open>
  The object \<^verbatim>\<open>isIPBlocked\<close> returns: \<^verbatim>\<open>{ blocked: false }\<close>, or the block
  with its end, reason and attempts.
\<close>

record block_status =
  blocked :: bool
  blockedUntil :: "timestamp option"
  reason_given :: "string option"
  attempts_seen :: "int option"

definition not_blocked :: block_status where
  "not_blocked = \<lparr>blocked = False, blockedUntil = None, reason_given = None, attempts_seen = None\<rparr>"

text \<open>
  \<^verbatim>\<open>DatabaseManager.isIPBlocked(ip)\<close>: an expired row
  (\<^verbatim>\<open>blockedUntil < new Date()\<close>) is deleted on the way.
\<close>

definition isIPBlocked ::
  "ip_blocks_table \<Rightarrow> timestamp \<Rightarrow> string \<Rightarrow> ip_blocks_table \<times> block_status" where
  "isIPBlocked tbl now ip =
     (case getIPBlock tbl ip of
        None \<Rightarrow> (tbl, not_blocked)
      | Some record \<Rightarrow>
          if blocked_until record < now then (fst (deleteIPBlock tbl ip), not_blocked)
          else (tbl,
                \<lparr>blocked = True, blockedUntil = Some (blocked_until record),
                 reason_given = Some (block_reason record),
                 attempts_seen = Some (block_attempts record)\<rparr>))"

text \<open>
  \<^verbatim>\<open>DatabaseManager.blockIP(ip, minutes, reason)\<close>; the block ends
  \<^verbatim>\<open>minutes * 60 * 1000\<close> milliseconds from now. \<open>minutes\<close> is a whole number
  of minutes, as at every call site.
\<close>

definition default_block_reason :: string where
  "default_block_reason = ''Troppi tentativi sospetti''"

definition blockIP ::
  "ip_blocks_table \<Rightarrow> timestamp \<Rightarrow> string \<Rightarrow> int \<Rightarrow> string \<Rightarrow> ip_blocks_table \<times> bool" where
  "blockIP tbl now ip minutes reason =
     (let until = now + minutes * 60 * 1000
      in (insertIPBlock tbl now ip until reason 1, True))"

section \<open>JSON values\<close>

text \<open>
  Objects the code builds and sends or stores. An object is a list of members in
  insertion order; spreading and assignment replace a member in place or append
  it (\<^const>\<open>AList.update\<close>).
\<close>

datatype json =
  JNull
  | JBool bool
  | JNum int
  | JStr string
  | JArr "json list"
  | JObj "(string \<times> json) list"

section \<open>Table \<^verbatim>\<open>admin_logs\<close>\<close>

text \<open>
  A row of \<^verbatim>\<open>admin_logs\<close>. \<^verbatim>\<open>logAdminAction\<close> stores
  \<^verbatim>\<open>JSON.stringify(data.newValue)\<close>; the model keeps the value itself.
\<close>

record admin_log_row =
  log_action :: string
  entity_type :: "string option"
  entity_id :: "string option"
  old_value :: "json option"
  new_value :: "json option"
  admin_key :: "string option"
  log_ip_address :: "string option"
  log_timestamp :: timestamp

text \<open>The argument of \<^verbatim>\<open>logAdminAction\<close>.\<close>

record admin_action =
  action :: string
  entityType :: "string option"
  entityId :: "string option"
  oldValue :: "json option"
  newValue :: "json option"
  adminKey :: "string option"
  actionIpAddress :: "string option"

definition logAdminAction ::
  "admin_log_row list \<Rightarrow> timestamp \<Rightarrow> admin_action \<Rightarrow> admin_log_row list" where
  "logAdminAction logs now data =
     logs @ [\<lparr>log_action = action data, entity_type = entityType data,
              entity_id = entityId data, old_value = oldValue data,
              new_value = newValue data, admin_key = adminKey data,
              log_ip_address = actionIpAddress data, log_timestamp = now\<rparr>]"

section \<open>Table \<^verbatim>\<open>iscrizioni\<close> and \<^verbatim>\<open>createIscrizione\<close> (database manager)\<close>

text \<open>
  A row of \<^verbatim>\<open>iscrizioni\<close>: \<^verbatim>\<open>id\<close> is the primary key and
  \<^verbatim>\<open>email_capitano\<close> is declared UNIQUE. Both compare text byte by byte.
\<close>

record iscrizione_row =
  row_id :: string
  nome_squadra :: string
  citta_squadra :: string
  paese_squadra :: string
  nome_capitano :: string
  cognome_capitano :: string
  email_capitano :: string
  telefono_capitano :: string
  data_nascita_capitano :: string
  provincia_foggia :: string
  numero_giocatori :: int
  row_note :: "string option"
  row_status :: string
  ip_address :: "string option"
  user_agent :: "string option"
  created_at :: timestamp
  updated_at :: timestamp
  approved_at :: "timestamp option"
  approved_by :: "string option"

text \<open>
  The argument \<^verbatim>\<open>data\<close> of \<^verbatim>\<open>createIscrizione\<close>. \<open>numeroGiocatori\<close> is
  \<open>None\<close> for \<^verbatim>\<open>undefined\<close> and \<^verbatim>\<open>NaN\<close>; \<open>note_text\<close> is the member
  \<^verbatim>\<open>note\<close>.
\<close>

record iscrizione_data =
  nomeSquadra :: string
  cittaSquadra :: string
  paeseSquadra :: string
  nomeCapitano :: string
  cognomeCapitano :: string
  emailCapitano :: string
  telefonoCapitano :: string
  dataNascitaCapitano :: string
  provinciaFoggia :: string
  numeroGiocatori :: "int option"
  note_text :: "string option"
  ipAddress :: "string option"
  userAgent :: "string option"

text \<open>The constraint errors the insert can raise (\<^verbatim>\<open>error.code\<close>).\<close>

datatype sqlite_error = SQLITE_CONSTRAINT_UNIQUE | SQLITE_CONSTRAINT_PRIMARYKEY

text \<open>
  \<^verbatim>\<open>INSERT INTO iscrizioni (...) VALUES (...)\<close>. SQLite checks the unique
  indexes of a table from the one declared last to the one declared first, so
  the UNIQUE index of \<^verbatim>\<open>email_capitano\<close> is checked before the primary key.
\<close>

definition insertIscrizione ::
  "iscrizione_row list \<Rightarrow> iscrizione_row \<Rightarrow> sqlite_error + iscrizione_row list" where
  "insertIscrizione rows row =
     (if email_capitano row \<in> set (map email_capitano rows) then Inl SQLITE_CONSTRAINT_UNIQUE
      else if row_id row \<in> set (map row_id rows) then Inl SQLITE_CONSTRAINT_PRIMARYKEY
      else Inr (rows @ [row]))"

text \<open>\<^verbatim>\<open>SELECT * FROM iscrizioni WHERE id = ?\<close>\<close>

definition getIscrizioneById :: "iscrizione_row list \<Rightarrow> string \<Rightarrow> iscrizione_row option" where
  "getIscrizioneById rows i = find (\<lambda>r. row_id r = i) rows"

text \<open>\<^verbatim>\<open>x || null\<close> on a string: the empty string is falsy.\<close>

definition or_null :: "string option \<Rightarrow> string option" where
  "or_null x = (case x of None \<Rightarrow> None | Some s \<Rightarrow> if s = [] then None else Some s)"

text \<open>The object \<^verbatim>\<open>createIscrizione\<close> returns.\<close>

record create_result =
  success :: bool
  result_id :: "string option"
  iscrizione :: "iscrizione_row option"
  error :: "string option"

text \<open>
  The message returned for a duplicate email; its accented \<open>a\<close> is the code
  unit \<open>0xE0\<close>.
\<close>

definition email_gia_registrata :: string where
  "email_gia_registrata = ''Email gi'' @ [CHR 0xE0] @ '' registrata''"

text \<open>
  \<^verbatim>\<open>DatabaseManager.createIscrizione(data)\<close>. \<open>uuid\<close> is the value of
  \<^verbatim>\<open>crypto.randomUUID()\<close>. A UNIQUE violation is caught and returned; any
  other error is thrown again (\<open>Inl\<close>).
\<close>

definition createIscrizione ::
  "iscrizione_row list \<Rightarrow> timestamp \<Rightarrow> string \<Rightarrow> iscrizione_data
     \<Rightarrow> sqlite_error + (iscrizione_row list \<times> create_result)" where
  "createIscrizione rows now uuid data =
     (let new_row =
        \<lparr>row_id = uuid,
         nome_squadra = nomeSquadra data,
         citta_squadra = cittaSquadra data,
         paese_squadra = paeseSquadra data,
         nome_capitano = nomeCapitano data,
         cognome_capitano = cognomeCapitano data,
         email_capitano = emailCapitano data,
         telefono_capitano = telefonoCapitano data,
         data_nascita_capitano = dataNascitaCapitano data,
         provincia_foggia = provinciaFoggia data,
         numero_giocatori =
           (case numeroGiocatori data of None \<Rightarrow> 11 | Some n \<Rightarrow> if n = 0 then 11 else n),
         row_note = or_null (note_text data),
         row_status = ''pending'',
         ip_address = or_null (ipAddress data),
         user_agent = or_null (userAgent data),
         created_at = now,
         updated_at = now,
         approved_at = None,
         approved_by = None\<rparr>
      in case insertIscrizione rows new_row of
           Inr rows' \<Rightarrow>
             Inr (rows',
                  \<lparr>success = True, result_id = Some uuid,
                   iscrizione = getIscrizioneById rows' uuid, error = None\<rparr>)
         | Inl e \<Rightarrow>
             if e = SQLITE_CONSTRAINT_UNIQUE then
               Inr (rows,
                    \<lparr>success = False, result_id = None, iscrizione = None,
                     error = Some email_gia_registrata\<rparr>)
             else Inl e)"

section \<open>Table \<^verbatim>\<open>analytics_form\<close>\<close>

record form_stat_row =
  fs_session_id :: "string option"
  fs_action :: string
  fs_field :: "string option"
  fs_timestamp :: timestamp

text \<open>
  \<^verbatim>\<open>DatabaseManager.trackForm(data)\<close>, for a call that gives no session and no
  timestamp.
\<close>

definition trackForm :: "form_stat_row list \<Rightarrow> timestamp \<Rightarrow> string \<Rightarrow> string option
    \<Rightarrow> form_stat_row list" where
  "trackForm rows now act field =
     rows @ [\<lparr>fs_session_id = None, fs_action = act, fs_field = or_null field,
              fs_timestamp = now\<rparr>]"

section \<open>The server: state, security utilities\<close>

record database =
  iscrizioni :: "iscrizione_row list"
  analytics_form :: "form_stat_row list"
  rate_limits :: rate_limits_table
  admin_logs :: "admin_log_row list"
  ip_blocks :: ip_blocks_table

text \<open>An entry of the in-memory map \<^verbatim>\<open>ipAttempts\<close>.\<close>

record attempt_record =
  count :: int
  lastAttempt :: timestamp

record server_state =
  db :: database
  ipAttempts :: "string \<rightharpoonup> attempt_record"

text \<open>\<^verbatim>\<open>SECURITY_CONFIG\<close>\<close>

definition IP_BLOCK_DURATION_MINUTES :: int where
  "IP_BLOCK_DURATION_MINUTES = 30"

definition MAX_SUSPICIOUS_ATTEMPTS :: int where
  "MAX_SUSPICIOUS_ATTEMPTS = 5"

text \<open>
  \<^verbatim>\<open>blockIP(ip, minutes, reason)\<close> of the server: the block in the database,
  then a line in the admin log.
\<close>

definition server_blockIP ::
  "server_state \<Rightarrow> timestamp \<Rightarrow> string \<Rightarrow> int \<Rightarrow> string \<Rightarrow> server_state" where
  "server_blockIP s now ip minutes reason =
     (let d = db s;
          d1 = d\<lparr>ip_blocks := fst (blockIP (ip_blocks d) now ip minutes reason)\<rparr>;
          d2 = d1\<lparr>admin_logs := logAdminAction (admin_logs d1) now
                  \<lparr>action = ''ip_blocked'', entityType = Some ''security'',
                   entityId = Some ip, oldValue = None,
                   newValue = Some (JObj [(''blockedMinutes'', JNum minutes),
                                          (''reason'', JStr reason)]),
                   adminKey = None, actionIpAddress = Some ip\<rparr>\<rparr>
      in s\<lparr>db := d2\<rparr>)"

text \<open>\<^verbatim>\<open>incrementSuspiciousAttempts(ip)\<close>\<close>

definition incrementSuspiciousAttempts ::
  "server_state \<Rightarrow> timestamp \<Rightarrow> string \<Rightarrow> server_state \<times> bool" where
  "incrementSuspiciousAttempts s now ip =
     (let record0 = (case ipAttempts s ip of
                       None \<Rightarrow> \<lparr>count = 0, lastAttempt = 0\<rparr>
                     | Some r \<Rightarrow> r);
          record = record0\<lparr>count := count record0 + 1, lastAttempt := now\<rparr>;
          s1 = s\<lparr>ipAttempts := (ipAttempts s)(ip \<mapsto> record)\<rparr>
      in if count record \<ge> MAX_SUSPICIOUS_ATTEMPTS
         then (server_blockIP s1 now ip IP_BLOCK_DURATION_MINUTES default_block_reason, True)
         else (s1, False))"

section \<open>The registration endpoint \<^verbatim>\<open>POST /api/iscrizione\<close>\<close>

text \<open>
  What the handler reads of a request: the caller's address, the
  \<^verbatim>\<open>User-Agent\<close> header, the paths of the validation errors
  (\<^verbatim>\<open>validationResult(req)\<close>), and the members of the body, the honeypot
  member \<^verbatim>\<open>website\<close> among them.
\<close>

record iscrizione_request =
  req_ip :: string
  req_userAgent :: "string option"
  req_path :: string
  validation_errors :: "string list"
  body_website :: "string option"
  body_nomeSquadra :: string
  body_cittaSquadra :: string
  body_paeseSquadra :: string
  body_nomeCapitano :: string
  body_cognomeCapitano :: string
  body_emailCapitano :: string
  body_telefonoCapitano :: string
  body_dataNascitaCapitano :: string
  body_provinciaFoggia :: string
  body_numeroGiocatori :: string
  body_note :: "string option"

text \<open>
  Library functions the handler calls, taken as parameters:
  \<^verbatim>\<open>sanitizeInput\<close> (built on \<^verbatim>\<open>validator\<close>), \<^verbatim>\<open>validator.normalizeEmail\<close>
  and \<^verbatim>\<open>parseInt\<close> (\<open>None\<close> for \<^verbatim>\<open>NaN\<close>).
\<close>

record library =
  sanitizeInput :: "string \<Rightarrow> string"
  normalizeEmail :: "string \<Rightarrow> string"
  parseInt :: "string \<Rightarrow> int option"

text \<open>The status and the JSON body of a response.\<close>

record http_response =
  http_status :: nat
  http_success :: bool
  message :: string
  response_id :: "string option"

text \<open>
  \<^verbatim>\<open>logSuspiciousActivity(req, reason, severity)\<close>: a line in the admin log
  (security logging is enabled in \<^verbatim>\<open>SECURITY_CONFIG\<close>).
\<close>

definition logSuspiciousActivity ::
  "database \<Rightarrow> timestamp \<Rightarrow> iscrizione_request \<Rightarrow> string \<Rightarrow> string \<Rightarrow> database" where
  "logSuspiciousActivity d now req why severity =
     (let ip = (if req_ip req = [] then ''unknown'' else req_ip req);
          ua = (case or_null (map_option (take 200) (req_userAgent req)) of
                  None \<Rightarrow> ''unknown'' | Some u \<Rightarrow> u)
      in d\<lparr>admin_logs := logAdminAction (admin_logs d) now
             \<lparr>action = ''security_event'', entityType = Some ''security'',
              entityId = Some ip, oldValue = None,
              newValue = Some (JObj [(''reason'', JStr why), (''severity'', JStr severity),
                                     (''userAgent'', JStr ua), (''path'', JStr (req_path req))]),
              adminKey = None, actionIpAddress = Some ip\<rparr>\<rparr>)"

text \<open>\<^verbatim>\<open>checkHoneypot(req)\<close>: false, and a log line, when the honeypot is filled.\<close>

definition checkHoneypot ::
  "database \<Rightarrow> timestamp \<Rightarrow> iscrizione_request \<Rightarrow> database \<times> bool" where
  "checkHoneypot d now req =
     (case or_null (body_website req) of
        Some _ \<Rightarrow>
          (logSuspiciousActivity d now req ''Honeypot triggered - bot detected'' ''warning'',
           False)
      | None \<Rightarrow> (d, True))"

text \<open>The messages of the responses; accented letters are single code units.\<close>

definition msg_errore_riprova :: string where
  "msg_errore_riprova = ''Si '' @ [CHR 0xE8] @ '' verificato un errore. Riprova.''"

definition msg_dati_non_validi :: string where
  "msg_dati_non_validi = ''Dati non validi''"

definition msg_email_limit :: string where
  "msg_email_limit =
     ''Hai gi'' @ [CHR 0xE0] @ '' inviato un'iscrizione di recente. Riprova pi''
       @ [CHR 0xF9] @ '' tardi.''"

definition msg_ip_limit :: string where
  "msg_ip_limit = ''Troppe iscrizioni da questo indirizzo IP.''"

definition msg_errore_iscrizione :: string where
  "msg_errore_iscrizione = ''Errore durante l'iscrizione''"

definition msg_iscrizione_inviata :: string where
  "msg_iscrizione_inviata = ''Iscrizione inviata con successo! Ti contatteremo a breve.''"

definition msg_errore_invio :: string where
  "msg_errore_invio =
     ''Si '' @ [CHR 0xE8] @ '' verificato un errore durante l'invio dell'iscrizione''"

text \<open>
  A call of the rate-limit gate: key, limit and window. The handler's model
  returns the calls it made, in order, beside the database and the response.
\<close>

type_synonym gate_call = "string \<times> int \<times> int"

text \<open>
  The handler of \<^verbatim>\<open>POST /api/iscrizione\<close>, after the middleware. The clock
  reads of one request are taken at one instant \<open>now\<close>. Sending the two emails
  touches no table and is left out. An error thrown by \<^verbatim>\<open>createIscrizione\<close>
  is caught by the handler's \<^verbatim>\<open>try\<close> (status 500).
\<close>

definition iscrizione_handler ::
  "library \<Rightarrow> database \<Rightarrow> timestamp \<Rightarrow> string \<Rightarrow> iscrizione_request
     \<Rightarrow> database \<times> http_response \<times> gate_call list" where
  "iscrizione_handler lib d now uuid req =
     (case checkHoneypot d now req of
        (d0, False) \<Rightarrow>
          (d0, \<lparr>http_status = 400, http_success = False, message = msg_errore_riprova,
                response_id = None\<rparr>, [])
      | (d0, True) \<Rightarrow>
          if validation_errors req \<noteq> [] then
            (d0\<lparr>analytics_form :=
                   fold (\<lambda>field rows. trackForm rows now ''error''
                           (Some (if field = [] then ''unknown'' else field)))
                     (validation_errors req) (analytics_form d0)\<rparr>,
             \<lparr>http_status = 400, http_success = False, message = msg_dati_non_validi,
              response_id = None\<rparr>, [])
          else
            let email = body_emailCapitano req;
                ip = req_ip req;
                userAgent0 = (case req_userAgent req of None \<Rightarrow> [] | Some u \<Rightarrow> u);
                call1 = (''email:'' @ email, 1, 3600000);
                (rl1, emailRateLimit) = checkRateLimit (rate_limits d0) now (''email:'' @ email) 1 3600000;
                d1 = d0\<lparr>rate_limits := rl1\<rparr>
            in if \<not> allowed emailRateLimit then
                 (d1, \<lparr>http_status = 429, http_success = False, message = msg_email_limit,
                       response_id = None\<rparr>, [call1])
               else
                 let call2 = (''ip:'' @ ip, 3, 3600000);
                     (rl2, ipRateLimit) = checkRateLimit (rate_limits d1) now (''ip:'' @ ip) 3 3600000;
                     d2 = d1\<lparr>rate_limits := rl2\<rparr>
                 in if \<not> allowed ipRateLimit then
                      (d2, \<lparr>http_status = 429, http_success = False, message = msg_ip_limit,
                            response_id = None\<rparr>, [call1, call2])
                    else
                      (case createIscrizione (iscrizioni d2) now uuid
                             \<lparr>nomeSquadra = sanitizeInput lib (body_nomeSquadra req),
                              cittaSquadra = sanitizeInput lib (body_cittaSquadra req),
                              paeseSquadra = body_paeseSquadra req,
                              nomeCapitano = sanitizeInput lib (body_nomeCapitano req),
                              cognomeCapitano = sanitizeInput lib (body_cognomeCapitano req),
                              emailCapitano = normalizeEmail lib (body_emailCapitano req),
                              telefonoCapitano = sanitizeInput lib (body_telefonoCapitano req),
                              dataNascitaCapitano = body_dataNascitaCapitano req,
                              provinciaFoggia = body_provinciaFoggia req,
                              numeroGiocatori = parseInt lib (body_numeroGiocatori req),
                              note_text = map_option (sanitizeInput lib) (or_null (body_note req)),
                              ipAddress = Some ip,
                              userAgent = Some userAgent0\<rparr> of
                        Inl e \<Rightarrow>
                          (d2, \<lparr>http_status = 500, http_success = False,
                                message = msg_errore_invio, response_id = None\<rparr>,
                           [call1, call2])
                      | Inr (rows, result) \<Rightarrow>
                          if \<not> success result then
                            (d2, \<lparr>http_status = 400, http_success = False,
                                  message = (case or_null (error result) of
                                               Some m \<Rightarrow> m | None \<Rightarrow> msg_errore_iscrizione),
                                  response_id = None\<rparr>,
                             [call1, call2])
                          else
                            let d3 = d2\<lparr>iscrizioni := rows\<rparr>;
                                d4 = d3\<lparr>admin_logs := logAdminAction (admin_logs d3) now
                                       \<lparr>action = ''iscrizione_created'',
                                        entityType = Some ''iscrizione'',
                                        entityId = result_id result, oldValue = None,
                                        newValue =
                                          Some (JObj [(''nomeSquadra'',
                                            (case iscrizione result of
                                               None \<Rightarrow> JNull
                                             | Some r \<Rightarrow> JStr (nome_squadra r)))]),
                                        adminKey = None, actionIpAddress = Some ip\<rparr>\<rparr>
                            in (d4, \<lparr>http_status = 200, http_success = True,
                                     message = msg_iscrizione_inviata,
                                     response_id = result_id result\<rparr>,
                                [call1, call2])))"

section \<open>The analytics client (\<^verbatim>\<open>FoggianoAnalytics\<close>)\<close>

text \<open>
  The members of \<^verbatim>\<open>this.config\<close> that the queue reads. The constructor's
  defaults are batch size 10, batch interval 5000 ms, 3 retry attempts and a
  retry delay of 1000 ms.
\<close>

record analytics_config =
  apiBase :: string
  batchSize :: nat
  batchInterval :: int
  retryAttempts :: nat
  retryDelay :: int

definition default_config :: analytics_config where
  "default_config =
     \<lparr>apiBase = ''/api/analytics'', batchSize = 10, batchInterval = 5000,
      retryAttempts = 3, retryDelay = 1000\<rparr>"

text \<open>An event of the queue, as \<^verbatim>\<open>queueEvent\<close> builds it.\<close>

record client_event =
  endpoint :: string
  data :: "(string \<times> json) list"
  attempts :: nat
  createdAt :: timestamp

record funnel =
  pageLoad :: bool
  heroView :: bool
  puzzleView :: bool
  puzzleStart :: bool
  puzzleComplete :: bool
  torneoView :: bool
  formView :: bool
  formStart :: bool
  formSubmit :: bool

text \<open>A request handed to \<^verbatim>\<open>fetch\<close> or to \<^verbatim>\<open>navigator.sendBeacon\<close>: instant, URL, body.\<close>

type_synonym request = "timestamp \<times> string \<times> json"

text \<open>
  The state of the client: the fields of the object, and what it does to the
  browser. \<open>timers\<close> holds the instant at which each pending
  \<^verbatim>\<open>setTimeout\<close> callback is due; every such callback is
  \<^verbatim>\<open>retryFailedEvents\<close>. \<open>fetches\<close> lists the calls of \<^verbatim>\<open>fetch\<close> made by
  \<^verbatim>\<open>sendEvent\<close>, that is the delivery attempts, and \<open>beacons\<close> the calls of
  \<^verbatim>\<open>navigator.sendBeacon\<close>, both in order. \<open>hasSendBeacon\<close> tells whether the
  browser has \<^verbatim>\<open>navigator.sendBeacon\<close>.
\<close>

record analytics =
  config :: analytics_config
  sessionId :: string
  sessionStart :: timestamp
  eventQueue :: "client_event list"
  isOnline :: bool
  retryQueue :: "client_event list"
  scrollMilestones :: "int list"
  clickedSections :: "string list"
  funnelSteps :: funnel
  timers :: "timestamp list"
  fetches :: "request list"
  beacons :: "request list"
  hasSendBeacon :: bool

text \<open>
  The network: whether the \<^verbatim>\<open>fetch\<close> of an event, made at an instant, ends in
  a response with \<^verbatim>\<open>response.ok\<close>. Any other end (a rejected promise, a status
  outside 2xx) is a failed delivery.
\<close>

type_synonym network = "timestamp \<Rightarrow> client_event \<Rightarrow> bool"

definition always_fails :: network where
  "always_fails t ev = False"

definition always_ok :: network where
  "always_ok t ev = True"

text \<open>\<^verbatim>\<open>{...obj, k1: v1, k2: v2}\<close>: each member replaces the one of its name or is appended.\<close>

definition js_assign :: "(string \<times> json) list \<Rightarrow> (string \<times> json) list \<Rightarrow> (string \<times> json) list" where
  "js_assign obj members = fold (\<lambda>(k, v). AList.update k v) members obj"

text \<open>
  \<^verbatim>\<open>sendEvent(event)\<close>. The request is handed to \<^verbatim>\<open>fetch\<close>; on a failure an
  event with \<^verbatim>\<open>attempts < retryAttempts\<close> has its \<^verbatim>\<open>attempts\<close> incremented, is
  pushed on the retry queue, and a timer for \<^verbatim>\<open>retryFailedEvents\<close> is set
  \<^verbatim>\<open>retryDelay * event.attempts\<close> ms ahead. The outcome of the \<^verbatim>\<open>fetch\<close> is
  handled at the instant of the call: nothing else runs in between.
\<close>

definition sendEvent :: "network \<Rightarrow> analytics \<Rightarrow> timestamp \<Rightarrow> client_event \<Rightarrow> analytics \<times> bool" where
  "sendEvent net st now event =
     (let st1 = st\<lparr>fetches := fetches st
                  @ [(now, apiBase (config st) @ ''/'' @ endpoint event, JObj (data event))]\<rparr>
      in if net now event then (st1, True)
         else if attempts event < retryAttempts (config st) then
           let event' = event\<lparr>attempts := attempts event + 1\<rparr>
           in (st1\<lparr>retryQueue := retryQueue st1 @ [event'],
                   timers := timers st1
                     @ [now + retryDelay (config st) * int (attempts event')]\<rparr>,
               False)
         else (st1, False))"

text \<open>The loop \<^verbatim>\<open>for (const event of events) await this.sendEvent(event)\<close>.\<close>

definition sendEvents :: "network \<Rightarrow> analytics \<Rightarrow> timestamp \<Rightarrow> client_event list \<Rightarrow> analytics" where
  "sendEvents net st now events = fold (\<lambda>event s. fst (sendEvent net s now event)) events st"

text \<open>\<^verbatim>\<open>flushQueue()\<close>: nothing happens on an empty queue or offline.\<close>

definition flushQueue :: "network \<Rightarrow> analytics \<Rightarrow> timestamp \<Rightarrow> analytics" where
  "flushQueue net st now =
     (if eventQueue st = [] \<or> \<not> isOnline st then st
      else let events = eventQueue st
           in sendEvents net (st\<lparr>eventQueue := []\<rparr>) now events)"

text \<open>\<^verbatim>\<open>retryFailedEvents()\<close>: no test of \<^verbatim>\<open>isOnline\<close> here.\<close>

definition retryFailedEvents :: "network \<Rightarrow> analytics \<Rightarrow> timestamp \<Rightarrow> analytics" where
  "retryFailedEvents net st now =
     (let events = retryQueue st
      in sendEvents net (st\<lparr>retryQueue := []\<rparr>) now events)"

text \<open>\<^verbatim>\<open>queueEvent(endpoint, data)\<close>; instants in payloads are numbers of milliseconds.\<close>

definition queueEvent ::
  "network \<Rightarrow> analytics \<Rightarrow> timestamp \<Rightarrow> string \<Rightarrow> (string \<times> json) list \<Rightarrow> analytics" where
  "queueEvent net st now ep payload =
     (let event = \<lparr>endpoint = ep,
                   data = js_assign payload
                     [(''sessionId'', JStr (sessionId st)),
                      (''timestamp'', JNum now),
                      (''timeOnPage'', JNum (now - sessionStart st))],
                   attempts = 0, createdAt = now\<rparr>;
          st1 = st\<lparr>eventQueue := eventQueue st @ [event]\<rparr>
      in if length (eventQueue st1) \<ge> batchSize (config st1) then flushQueue net st1 now
         else st1)"

text \<open>\<^verbatim>\<open>sendBeacon(endpoint, data)\<close>: nothing without \<^verbatim>\<open>navigator.sendBeacon\<close>.\<close>

definition sendBeacon :: "analytics \<Rightarrow> timestamp \<Rightarrow> string \<Rightarrow> (string \<times> json) list \<Rightarrow> analytics" where
  "sendBeacon st now ep payload =
     (if hasSendBeacon st then
        st\<lparr>beacons := beacons st
             @ [(now, apiBase (config st) @ ''/'' @ ep,
                 JObj (js_assign payload
                   [(''sessionId'', JStr (sessionId st)), (''timestamp'', JNum now)]))]\<rparr>
      else st)"

text \<open>\<^verbatim>\<open>Math.max(...this.scrollMilestones, 0)\<close>\<close>

definition maxScroll :: "analytics \<Rightarrow> int" where
  "maxScroll st = fold max (scrollMilestones st) 0"

definition funnel_values :: "funnel \<Rightarrow> bool list" where
  "funnel_values f =
     [pageLoad f, heroView f, puzzleView f, puzzleStart f, puzzleComplete f, torneoView f,
      formView f, formStart f, formSubmit f]"

definition funnel_json :: "funnel \<Rightarrow> json" where
  "funnel_json f =
     JObj (zip [''pageLoad'', ''heroView'', ''puzzleView'', ''puzzleStart'', ''puzzleComplete'',
                ''torneoView'', ''formView'', ''formStart'', ''formSubmit'']
               (map JBool (funnel_values f)))"

text \<open>\<^verbatim>\<open>calculateEngagementScore()\<close>\<close>

definition calculateEngagementScore :: "analytics \<Rightarrow> timestamp \<Rightarrow> int" where
  "calculateEngagementScore st now =
     (let maxScore = 100;
          timeOnPage = now - sessionStart st;
          timeScore = min 20 ((timeOnPage div 30000) * 5);
          score = timeScore;
          score = score + maxScroll st div 5;
          steps = int (length (filter (\<lambda>b. b) (funnel_values (funnelSteps st))));
          score = score + steps * 5;
          score = score + int (length (clickedSections st)) * 3;
          score = (if puzzleComplete (funnelSteps st) then score + 5 else score);
          score = (if formSubmit (funnelSteps st) then score + 5 else score)
      in min score maxScore)"

text \<open>
  \<^verbatim>\<open>sendFinalData\<close> of \<^verbatim>\<open>setupUnloadTracking\<close>: two beacons, the end of the
  session and the engagement score.
\<close>

definition sendFinalData :: "analytics \<Rightarrow> timestamp \<Rightarrow> analytics" where
  "sendFinalData st now =
     (let timeOnPage = now - sessionStart st;
          maxScrollReached = maxScroll st;
          st1 = sendBeacon st now ''event''
                  [(''category'', JStr ''Session''), (''action'', JStr ''End''),
                   (''value'', JNum timeOnPage),
                   (''sessionData'',
                      JObj [(''duration'', JNum timeOnPage),
                            (''maxScroll'', JNum maxScrollReached),
                            (''sectionsClicked'', JArr (map JStr (clickedSections st))),
                            (''funnel'', funnel_json (funnelSteps st))])];
          engagementScore = calculateEngagementScore st1 now
      in sendBeacon st1 now ''event''
           [(''category'', JStr ''Engagement''), (''action'', JStr ''Score''),
            (''value'', JNum engagementScore)])"

text \<open>
  What the browser does to the client: the \<^verbatim>\<open>online\<close> and \<^verbatim>\<open>offline\<close>
  events, a tick of the batch interval, a pending timer coming due, the page
  becoming hidden (\<^verbatim>\<open>visibilitychange\<close> with state \<^verbatim>\<open>hidden\<close>),
  \<^verbatim>\<open>beforeunload\<close>, and a tracked action that queues an event.
\<close>

datatype browser_event =
  Online
  | Offline
  | BatchTick
  | TimerFires timestamp
  | VisibilityHidden
  | BeforeUnload
  | Track string "(string \<times> json) list"

text \<open>
  The listeners, each run to its end at the instant \<open>now\<close> of the event. The
  \<^verbatim>\<open>online\<close> listener starts \<^verbatim>\<open>flushQueue()\<close> and \<^verbatim>\<open>retryFailedEvents()\<close> one
  after the other without awaiting, so both take their queue before any send of
  the other is settled: the events of the two queues are sent, and the failures
  of either are queued for a later pass. A timer fires only if it is pending and
  due.
\<close>

definition handle :: "network \<Rightarrow> analytics \<Rightarrow> timestamp \<times> browser_event \<Rightarrow> analytics" where
  "handle net st e =
     (case e of
        (now, Online) \<Rightarrow>
          let st1 = st\<lparr>isOnline := True\<rparr>;
              flushed = eventQueue st1;
              retried = retryQueue st1
          in sendEvents net (st1\<lparr>eventQueue := [], retryQueue := []\<rparr>) now (flushed @ retried)
      | (now, Offline) \<Rightarrow> st\<lparr>isOnline := False\<rparr>
      | (now, BatchTick) \<Rightarrow> (if eventQueue st \<noteq> [] then flushQueue net st now else st)
      | (now, TimerFires due) \<Rightarrow>
          (if due \<in> set (timers st) \<and> due \<le> now
           then retryFailedEvents net (st\<lparr>timers := remove1 due (timers st)\<rparr>) now
           else st)
      | (now, VisibilityHidden) \<Rightarrow> sendFinalData st now
      | (now, BeforeUnload) \<Rightarrow> sendFinalData st now
      | (now, Track ep payload) \<Rightarrow> queueEvent net st now ep payload)"

definition run_events :: "network \<Rightarrow> analytics \<Rightarrow> (timestamp \<times> browser_event) list \<Rightarrow> analytics" where
  "run_events net st es = fold (\<lambda>e s. handle net s e) es st"

text \<open>
  The retries left to the timers alone: as long as a timer is pending, the
  earliest one fires at the instant it is due. The count bounds the number of
  timers fired; \<open>None\<close> means that timers were still pending when it ran out.
\<close>

fun run_timers :: "network \<Rightarrow> nat \<Rightarrow> analytics \<Rightarrow> analytics option" where
  "run_timers net n st =
     (case timers st of
        [] \<Rightarrow> Some st
      | t # ts \<Rightarrow>
          (case n of
             0 \<Rightarrow> None
           | Suc m \<Rightarrow>
               let due = fold min ts t
               in run_timers net m (handle net st (due, TimerFires due))))"

text \<open>
  The instants of the deliveries of an event retried by its timers alone: sent
  at \<open>t\<close> after \<open>k\<close> failures, with \<open>n\<close> retries left, each retry
  \<^verbatim>\<open>retryDelay\<close> times the new number of attempts after the failure before it.
\<close>

fun retry_instants :: "int \<Rightarrow> timestamp \<Rightarrow> nat \<Rightarrow> nat \<Rightarrow> timestamp list" where
  "retry_instants d t k 0 = [t]"
| "retry_instants d t k (Suc n) = t # retry_instants d (t + d * int (Suc k)) (Suc k) n"

text \<open>
  Counting the deliveries of one event: two entries of a queue are the same
  event when endpoint and payload agree (the payload carries the session and
  the instant of queueing); \<open>deliveries_of\<close> counts the calls of \<^verbatim>\<open>fetch\<close>
  made for the event. \<open>retry_passes\<close> runs \<^verbatim>\<open>retryFailedEvents\<close> once at each
  instant of a list, every delivery failing, whatever started each pass.
\<close>

definition same_event :: "client_event \<Rightarrow> client_event \<Rightarrow> bool" where
  "same_event ev e = (endpoint e = endpoint ev \<and> data e = data ev)"

definition deliveries_of :: "client_event \<Rightarrow> analytics \<Rightarrow> nat" where
  "deliveries_of ev st =
     length (filter (\<lambda>r. snd r = (apiBase (config st) @ ''/'' @ endpoint ev, JObj (data ev)))
               (fetches st))"

definition retry_passes :: "analytics \<Rightarrow> timestamp list \<Rightarrow> analytics" where
  "retry_passes st ps = fold (\<lambda>t s. retryFailedEvents always_fails s t) ps st"

text \<open>The beacons that end a session, and those that carry the engagement score.\<close>

definition is_beacon_of :: "string \<Rightarrow> string \<Rightarrow> request \<Rightarrow> bool" where
  "is_beacon_of category act r =
     (case snd (snd r) of
        JObj members \<Rightarrow>
          map_of members ''category'' = Some (JStr category)
          \<and> map_of members ''action'' = Some (JStr act)
      | _ \<Rightarrow> False)"

definition session_end_beacons :: "analytics \<Rightarrow> request list" where
  "session_end_beacons st = filter (is_beacon_of ''Session'' ''End'') (beacons st)"

definition score_beacons :: "analytics \<Rightarrow> request list" where
  "score_beacons st = filter (is_beacon_of ''Engagement'' ''Score'') (beacons st)"

definition is_page_exit :: "timestamp \<times> browser_event \<Rightarrow> bool" where
  "is_page_exit e = (snd e = VisibilityHidden \<or> snd e = BeforeUnload)"

section \<open>Concrete inputs\<close>

text \<open>A client that has just started: nothing queued, nothing sent, online.\<close>

definition idle_client :: analytics where
  "idle_client =
     \<lparr>config = default_config, sessionId = ''sess_abc'', sessionStart = 0, eventQueue = [],
      isOnline = True, retryQueue = [], scrollMilestones = [], clickedSections = [],
      funnelSteps = \<lparr>pageLoad = True, heroView = False, puzzleView = False,
                     puzzleStart = False, puzzleComplete = False, torneoView = False,
                     formView = False, formStart = False, formSubmit = False\<rparr>,
      timers = [], fetches = [], beacons = [], hasSendBeacon = True\<rparr>"

definition example_event :: client_event where
  "example_event =
     \<lparr>endpoint = ''event'',
      data = [(''category'', JStr ''Click''), (''action'', JStr ''Button''),
              (''sessionId'', JStr ''sess_abc''), (''timestamp'', JNum 0),
              (''timeOnPage'', JNum 0)],
      attempts = 0, createdAt = 0\<rparr>"

text \<open>
  The database after the schema is created, a library whose functions leave
  their input unchanged, and one registration: the request, the argument of
  \<^verbatim>\<open>createIscrizione\<close> it yields, and the row stored for it.
\<close>

definition empty_database :: database where
  "empty_database =
     \<lparr>iscrizioni = [], analytics_form = [], rate_limits = Map.empty, admin_logs = [],
      ip_blocks = Map.empty\<rparr>"

definition plain_library :: library where
  "plain_library =
     \<lparr>sanitizeInput = (\<lambda>s. s), normalizeEmail = (\<lambda>s. s), parseInt = (\<lambda>s. Some 11)\<rparr>"

definition example_request :: iscrizione_request where
  "example_request =
     \<lparr>req_ip = ''10.0.0.1'', req_userAgent = Some ''Mozilla'', req_path = ''/api/iscrizione'',
      validation_errors = [], body_website = None,
      body_nomeSquadra = ''Foggia Old Boys'', body_cittaSquadra = ''Foggia'',
      body_paeseSquadra = ''IT'', body_nomeCapitano = ''Mario'',
      body_cognomeCapitano = ''Rossi'', body_emailCapitano = ''mario@example.it'',
      body_telefonoCapitano = ''+39 0881 000000'', body_dataNascitaCapitano = ''1960-01-01'',
      body_provinciaFoggia = ''si'', body_numeroGiocatori = ''11'', body_note = None\<rparr>"

definition example_row :: iscrizione_row where
  "example_row =
     \<lparr>row_id = ''id-0'', nome_squadra = ''Vecchie Glorie'', citta_squadra = ''Foggia'',
      paese_squadra = ''IT'', nome_capitano = ''Mario'', cognome_capitano = ''Rossi'',
      email_capitano = ''mario@example.it'', telefono_capitano = ''+39 0881 000000'',
      data_nascita_capitano = ''1960-01-01'', provincia_foggia = ''si'',
      numero_giocatori = 11, row_note = None, row_status = ''pending'',
      ip_address = Some ''10.0.0.1'', user_agent = Some ''Mozilla'', created_at = 0,
      updated_at = 0, approved_at = None, approved_by = None\<rparr>"

definition example_data :: iscrizione_data where
  "example_data =
     \<lparr>nomeSquadra = ''Foggia Old Boys'', cittaSquadra = ''Foggia'', paeseSquadra = ''IT'',
      nomeCapitano = ''Mario'', cognomeCapitano = ''Rossi'',
      emailCapitano = ''mario@example.it'', telefonoCapitano = ''+39 0881 000000'',
      dataNascitaCapitano = ''1960-01-01'', provinciaFoggia = ''si'',
      numeroGiocatori = Some 11, note_text = None, ipAddress = Some ''10.0.0.1'',
      userAgent = Some ''Mozilla''\<rparr>"

definition empty_server :: server_state where
  "empty_server = \<lparr>db = empty_database, ipAttempts = Map.empty\<rparr>"

text \<open>A server that has blocked an address after its fifth failed attempt.\<close>

definition blocked_server :: server_state where
  "blocked_server =
     \<lparr>db = empty_database\<lparr>ip_blocks :=
             Map.empty(''10.0.0.1'' \<mapsto>
               \<lparr>blocked_at = 1000, blocked_until = 1801000,
                block_reason = default_block_reason, block_attempts = 1\<rparr>)\<rparr>,
      ipAttempts = Map.empty(''10.0.0.1'' \<mapsto> \<lparr>count = 5, lastAttempt = 1000\<rparr>)\<rparr>"

section \<open>Properties of the rate-limit gate\<close>

lemma checkRateLimit_opens:
  assumes "opens_window tbl t0 k windowMs"
  obtains tbl1 row1 where
    "checkRateLimit tbl t0 k maxRequests windowMs =
       (tbl1, \<lparr>allowed = True, remaining = maxRequests - 1, retryAfter = None\<rparr>)"
    and "tbl1 k = Some row1" and "rl_count row1 = 1" and "window_start row1 = t0"
proof (cases "tbl k")
  case None
  then have "checkRateLimit tbl t0 k maxRequests windowMs =
      (tbl(k \<mapsto> \<lparr>rl_count = 1, window_start = t0, last_request = t0\<rparr>),
       \<lparr>allowed = True, remaining = maxRequests - 1, retryAfter = None\<rparr>)"
    by (simp add: checkRateLimit_def getRateLimit_def upsertRateLimit_def)
  then show ?thesis
    using that [of _ "\<lparr>rl_count = 1, window_start = t0, last_request = t0\<rparr>"] by simp
next
  case (Some row)
  with assms have "window_start row < t0 - windowMs"
    by (simp add: opens_window_def)
  with Some have "checkRateLimit tbl t0 k maxRequests windowMs =
      (tbl(k \<mapsto> row\<lparr>rl_count := 1, window_start := t0\<rparr>),
       \<lparr>allowed = True, remaining = maxRequests - 1, retryAfter = None\<rparr>)"
    by (simp add: checkRateLimit_def getRateLimit_def resetRateLimit_def)
  then show ?thesis
    using that [of _ "row\<lparr>rl_count := 1, window_start := t0\<rparr>"] by simp
qed

lemma checkRateLimit_counted:
  assumes "tbl k = Some row" and "window_start row = t0" and "t - t0 < windowMs"
    and "rl_count row < maxRequests"
  shows "checkRateLimit tbl t k maxRequests windowMs =
           (tbl(k \<mapsto> row\<lparr>rl_count := rl_count row + 1, last_request := t\<rparr>),
            \<lparr>allowed = True, remaining = maxRequests - rl_count row - 1, retryAfter = None\<rparr>)"
  using assms
  by (simp add: checkRateLimit_def getRateLimit_def upsertRateLimit_def Let_def)

lemma checkRateLimit_denied:
  assumes "tbl k = Some row" and "window_start row = t0" and "t - t0 < windowMs"
    and "maxRequests \<le> rl_count row"
  shows "checkRateLimit tbl t k maxRequests windowMs =
           (tbl, \<lparr>allowed = False, remaining = 0, retryAfter = Some (windowMs - (t - t0))\<rparr>)"
  using assms
  by (simp add: checkRateLimit_def getRateLimit_def Let_def)

lemma checkRateLimit_calls_in_window:
  assumes "tbl k = Some row" and "window_start row = t0"
    and "\<forall>t \<in> set ts. t - t0 < windowMs"
    and "rl_count row + int (length ts) \<le> maxRequests"
  shows "length (snd (checkRateLimit_calls tbl k maxRequests windowMs ts)) = length ts
    \<and> list_all allowed (snd (checkRateLimit_calls tbl k maxRequests windowMs ts))
    \<and> (\<exists>row'. fst (checkRateLimit_calls tbl k maxRequests windowMs ts) k = Some row'
          \<and> window_start row' = t0
          \<and> rl_count row' = rl_count row + int (length ts))"
  using assms
proof (induction ts arbitrary: tbl row)
  case Nil
  then show ?case by simp
next
  case (Cons t ts)
  let ?row1 = "row\<lparr>rl_count := rl_count row + 1, last_request := t\<rparr>"
  let ?tbl1 = "tbl(k \<mapsto> ?row1)"
  from Cons.prems have lt: "rl_count row < maxRequests" and tw: "t - t0 < windowMs"
    by simp_all
  have step: "checkRateLimit tbl t k maxRequests windowMs =
      (?tbl1, \<lparr>allowed = True, remaining = maxRequests - rl_count row - 1, retryAfter = None\<rparr>)"
    using Cons.prems(1,2) tw lt by (rule checkRateLimit_counted)
  have "?tbl1 k = Some ?row1" and "window_start ?row1 = t0"
    using Cons.prems(2) by simp_all
  moreover have "\<forall>t \<in> set ts. t - t0 < windowMs"
    using Cons.prems(3) by simp
  moreover have "rl_count ?row1 + int (length ts) \<le> maxRequests"
    using Cons.prems(4) by simp
  ultimately have IH:
    "length (snd (checkRateLimit_calls ?tbl1 k maxRequests windowMs ts)) = length ts
     \<and> list_all allowed (snd (checkRateLimit_calls ?tbl1 k maxRequests windowMs ts))
     \<and> (\<exists>row'. fst (checkRateLimit_calls ?tbl1 k maxRequests windowMs ts) k = Some row'
          \<and> window_start row' = t0
          \<and> rl_count row' = rl_count ?row1 + int (length ts))"
    by (rule Cons.IH)
  then show ?case
    by (auto simp: step split: prod.splits)
qed

text \<open>
  C1. For every key, every \<open>maxRequests \<ge> 1\<close> and every \<open>windowMs > 0\<close>: when the
  first call (at \<open>t0\<close>) opens a window for the key and the calls are
  \<open>maxRequests\<close> in number, all at instants less than \<open>windowMs\<close> after \<open>t0\<close>,
  every one of them returns \<open>allowed = true\<close>; one more call at an instant
  \<open>t'\<close> of the same window returns \<open>allowed = false\<close>, \<open>remaining = 0\<close> and a
  \<open>retryAfter\<close> strictly greater than 0.
\<close>

theorem checkRateLimit_allows_max_then_denies:
  assumes "1 \<le> maxRequests" and "0 < windowMs"
    and "opens_window tbl t0 k windowMs"
    and "int (length (t0 # ts)) = maxRequests"
    and "\<forall>t \<in> set ts. t - t0 < windowMs"
    and "t' - t0 < windowMs"
  shows "case checkRateLimit_calls tbl k maxRequests windowMs (t0 # ts) of
           (tbl1, rs) \<Rightarrow>
             int (length rs) = maxRequests \<and> list_all allowed rs \<and>
             (case checkRateLimit tbl1 t' k maxRequests windowMs of
                (tbl2, r) \<Rightarrow>
                  \<not> allowed r \<and> remaining r = 0 \<and>
                  (\<exists>ra. retryAfter r = Some ra \<and> 0 < ra))"
proof -
  from assms(3) obtain tbl1 row1 where
    first: "checkRateLimit tbl t0 k maxRequests windowMs =
       (tbl1, \<lparr>allowed = True, remaining = maxRequests - 1, retryAfter = None\<rparr>)"
    and row1: "tbl1 k = Some row1" "rl_count row1 = 1" "window_start row1 = t0"
    by (rule checkRateLimit_opens)
  have "rl_count row1 + int (length ts) \<le> maxRequests"
    using assms(4) row1(2) by simp
  with row1 assms(5) have rest:
    "length (snd (checkRateLimit_calls tbl1 k maxRequests windowMs ts)) = length ts
     \<and> list_all allowed (snd (checkRateLimit_calls tbl1 k maxRequests windowMs ts))
     \<and> (\<exists>row'. fst (checkRateLimit_calls tbl1 k maxRequests windowMs ts) k = Some row'
          \<and> window_start row' = t0
          \<and> rl_count row' = rl_count row1 + int (length ts))"
    by (intro checkRateLimit_calls_in_window) simp_all
  obtain tbl2 rs where calls: "checkRateLimit_calls tbl1 k maxRequests windowMs ts = (tbl2, rs)"
    by (cases "checkRateLimit_calls tbl1 k maxRequests windowMs ts")
  from rest calls obtain row2 where
    rs: "length rs = length ts" "list_all allowed rs"
    and row2: "tbl2 k = Some row2" "window_start row2 = t0"
      "rl_count row2 = rl_count row1 + int (length ts)"
    by auto
  have full: "maxRequests \<le> rl_count row2"
    using row2(3) row1(2) assms(4) by simp
  have last: "checkRateLimit tbl2 t' k maxRequests windowMs =
      (tbl2, \<lparr>allowed = False, remaining = 0, retryAfter = Some (windowMs - (t' - t0))\<rparr>)"
    using row2(1,2) assms(6) full by (rule checkRateLimit_denied)
  have "0 < windowMs - (t' - t0)"
    using assms(6) by simp
  then show ?thesis
    using assms(4) rs by (simp add: first calls last)
qed

theorem checkRateLimit_allows_max_then_denies_witness:
  "case checkRateLimit_calls Map.empty ''ip:10.0.0.1'' 3 3600000 [1000, 2000, 3000] of
     (tbl1, rs) \<Rightarrow>
       int (length rs) = 3 \<and> list_all allowed rs \<and>
       (case checkRateLimit tbl1 4000 ''ip:10.0.0.1'' 3 3600000 of
          (tbl2, r) \<Rightarrow>
            \<not> allowed r \<and> remaining r = 0 \<and>
            (\<exists>ra. retryAfter r = Some ra \<and> 0 < ra))"
  using checkRateLimit_allows_max_then_denies
    [of 3 3600000 Map.empty 1000 "''ip:10.0.0.1''" "[2000, 3000]" 4000]
  by (simp add: opens_window_def)

text \<open>
  C2, as the claim states it, fails at the boundary: a row whose window started
  exactly \<open>windowMs\<close> before the call is not reset. With the limit reached the
  call is denied, with \<open>retryAfter = 0\<close>, and the row keeps its count and its
  window start.
\<close>

theorem checkRateLimit_boundary_counterexample:
  "checkRateLimit
     (Map.empty(''email:a@b.it'' \<mapsto> \<lparr>rl_count = 1, window_start = 0, last_request = 0\<rparr>))
     3600000 ''email:a@b.it'' 1 3600000 =
   (Map.empty(''email:a@b.it'' \<mapsto> \<lparr>rl_count = 1, window_start = 0, last_request = 0\<rparr>),
    \<lparr>allowed = False, remaining = 0, retryAfter = Some 0\<rparr>)"
  by (simp add: checkRateLimit_def getRateLimit_def)

text \<open>
  C2, amended. For every key with a row: when the elapsed time
  \<open>now - windowStart\<close> is strictly greater than \<open>windowMs\<close>, the call resets the
  row (count 1, window start \<open>now\<close>, the previous count forgotten) and returns
  \<open>allowed = true\<close>; when it equals \<open>windowMs\<close> exactly, the window is still
  open: the row keeps its window start and the call is denied if the count has
  reached the limit and counted otherwise.
\<close>

theorem checkRateLimit_resets_expired_window:
  assumes "tbl k = Some row"
  shows "(windowMs < now - window_start row \<longrightarrow>
            checkRateLimit tbl now k maxRequests windowMs =
              (tbl(k \<mapsto> row\<lparr>rl_count := 1, window_start := now\<rparr>),
               \<lparr>allowed = True, remaining = maxRequests - 1, retryAfter = None\<rparr>))
    \<and> (now - window_start row = windowMs \<longrightarrow>
            checkRateLimit tbl now k maxRequests windowMs =
              (if maxRequests \<le> rl_count row
               then (tbl, \<lparr>allowed = False, remaining = 0, retryAfter = Some 0\<rparr>)
               else (tbl(k \<mapsto> row\<lparr>rl_count := rl_count row + 1, last_request := now\<rparr>),
                     \<lparr>allowed = True, remaining = maxRequests - rl_count row - 1,
                      retryAfter = None\<rparr>)))"
  using assms
  by (auto simp: checkRateLimit_def getRateLimit_def resetRateLimit_def upsertRateLimit_def
      Let_def)

theorem checkRateLimit_resets_expired_window_witness:
  "checkRateLimit
     (Map.empty(''ip:10.0.0.1'' \<mapsto> \<lparr>rl_count = 3, window_start = 0, last_request = 500\<rparr>))
     3600001 ''ip:10.0.0.1'' 3 3600000 =
   (Map.empty(''ip:10.0.0.1'' \<mapsto> \<lparr>rl_count = 1, window_start = 3600001, last_request = 500\<rparr>),
    \<lparr>allowed = True, remaining = 2, retryAfter = None\<rparr>)
   \<and> checkRateLimit
     (Map.empty(''ip:10.0.0.1'' \<mapsto> \<lparr>rl_count = 2, window_start = 0, last_request = 500\<rparr>))
     3600000 ''ip:10.0.0.1'' 3 3600000 =
   (Map.empty(''ip:10.0.0.1'' \<mapsto> \<lparr>rl_count = 3, window_start = 0, last_request = 3600000\<rparr>),
    \<lparr>allowed = True, remaining = 0, retryAfter = None\<rparr>)"
  using checkRateLimit_resets_expired_window
    [of "Map.empty(''ip:10.0.0.1'' \<mapsto> \<lparr>rl_count = 3, window_start = 0, last_request = 500\<rparr>)"
        "''ip:10.0.0.1''" "\<lparr>rl_count = 3, window_start = 0, last_request = 500\<rparr>"
        3600000 3600001 3]
    checkRateLimit_resets_expired_window
    [of "Map.empty(''ip:10.0.0.1'' \<mapsto> \<lparr>rl_count = 2, window_start = 0, last_request = 500\<rparr>)"
        "''ip:10.0.0.1''" "\<lparr>rl_count = 2, window_start = 0, last_request = 500\<rparr>"
        3600000 3600000 3]
  by simp

lemma checkRateLimit_as_statements:
  "checkRateLimit tbl now k maxRequests windowMs =
     (run_statements tbl (checkRateLimit_statements tbl now k maxRequests windowMs),
      snd (checkRateLimit_after_read (getRateLimit tbl k) now k maxRequests windowMs))"
  by (simp add: checkRateLimit_def checkRateLimit_statements_def checkRateLimit_after_read_def
      run_statements_def run_statement_def Let_def split: option.splits)

lemma checkRateLimit_statements_shape:
  "hd (checkRateLimit_statements tbl now k maxRequests windowMs) = GetRateLimit k
   \<and> length (checkRateLimit_statements tbl now k maxRequests windowMs) =
       (if allowed (snd (checkRateLimit tbl now k maxRequests windowMs)) then 2 else 1)"
  by (simp add: checkRateLimit_def checkRateLimit_statements_def checkRateLimit_after_read_def
      Let_def split: option.splits)

lemma two_calls_in_turn:
  assumes "tbl k = Some row" and "t1 - window_start row < windowMs"
    and "t2 - window_start row < windowMs" and "rl_count row + 2 \<le> maxRequests"
  shows "list_all allowed (snd (checkRateLimit_calls tbl k maxRequests windowMs [t1, t2]))
     \<and> map_option rl_count (fst (checkRateLimit_calls tbl k maxRequests windowMs [t1, t2]) k)
         = Some (rl_count row + 2)"
  using checkRateLimit_calls_in_window
    [of tbl k row "window_start row" "[t1, t2]" windowMs maxRequests] assms
  by auto

lemma two_calls_reads_first_in_window:
  assumes "tbl k = Some row" and "t1 - window_start row < windowMs"
    and "t2 - window_start row < windowMs" and "rl_count row + 2 \<le> maxRequests"
  shows "allowed (fst (snd (checkRateLimit_reads_first tbl t1 t2 k maxRequests windowMs)))
     \<and> allowed (snd (snd (checkRateLimit_reads_first tbl t1 t2 k maxRequests windowMs)))
     \<and> map_option rl_count (fst (checkRateLimit_reads_first tbl t1 t2 k maxRequests windowMs) k)
         = Some (rl_count row + 2)"
  using assms
  by (simp add: checkRateLimit_reads_first_def checkRateLimit_after_read_def getRateLimit_def
      run_statements_def run_statement_def upsertRateLimit_def Let_def)

lemma two_calls_reads_first_no_row:
  assumes "tbl k = None"
  shows "allowed (fst (snd (checkRateLimit_reads_first tbl t1 t2 k maxRequests windowMs)))
     \<and> allowed (snd (snd (checkRateLimit_reads_first tbl t1 t2 k maxRequests windowMs)))
     \<and> map_option rl_count (fst (checkRateLimit_reads_first tbl t1 t2 k maxRequests windowMs) k)
         = Some 2"
  using assms
  by (simp add: checkRateLimit_reads_first_def checkRateLimit_after_read_def getRateLimit_def
      run_statements_def run_statement_def upsertRateLimit_def Let_def)

text \<open>
  C9, as the claim states it, fails. A counted call runs two statements, the
  \<^verbatim>\<open>SELECT\<close> and then the upsert, not one atomic upsert. When two calls
  both read before either writes, both find an expired window, both are
  allowed and both reset the row: the count is 1 after two admitted requests,
  one update lost. When both read a count of 2 under a limit of 3, both are
  allowed and the count ends at 4.
\<close>

theorem checkRateLimit_atomic_counterexample:
  "checkRateLimit_statements
     (Map.empty(''ip:10.0.0.1'' \<mapsto> \<lparr>rl_count = 2, window_start = 0, last_request = 500\<rparr>))
     1000 ''ip:10.0.0.1'' 3 3600000
     = [GetRateLimit ''ip:10.0.0.1'', UpsertRateLimit ''ip:10.0.0.1'' 0 1000]
   \<and> checkRateLimit_reads_first
     (Map.empty(''ip:10.0.0.1'' \<mapsto> \<lparr>rl_count = 3, window_start = 0, last_request = 500\<rparr>))
     4000000 4000001 ''ip:10.0.0.1'' 3 3600000
     = (Map.empty(''ip:10.0.0.1'' \<mapsto>
          \<lparr>rl_count = 1, window_start = 4000001, last_request = 500\<rparr>),
        \<lparr>allowed = True, remaining = 2, retryAfter = None\<rparr>,
        \<lparr>allowed = True, remaining = 2, retryAfter = None\<rparr>)
   \<and> checkRateLimit_reads_first
     (Map.empty(''ip:10.0.0.1'' \<mapsto> \<lparr>rl_count = 2, window_start = 0, last_request = 500\<rparr>))
     1000 1001 ''ip:10.0.0.1'' 3 3600000
     = (Map.empty(''ip:10.0.0.1'' \<mapsto>
          \<lparr>rl_count = 4, window_start = 0, last_request = 1001\<rparr>),
        \<lparr>allowed = True, remaining = 0, retryAfter = None\<rparr>,
        \<lparr>allowed = True, remaining = 0, retryAfter = None\<rparr>)"
  by (simp add: checkRateLimit_statements_def checkRateLimit_reads_first_def
      checkRateLimit_after_read_def getRateLimit_def run_statements_def run_statement_def
      upsertRateLimit_def resetRateLimit_def Let_def)

text \<open>
  C9, amended. For every key, a call of \<^verbatim>\<open>checkRateLimit\<close> is a separate read
  followed by a write that depends on what was read: it runs the \<^verbatim>\<open>SELECT\<close>
  first and then, when the call is allowed, exactly one write (the upsert, or
  the reset of an expired window); a denied call runs the \<^verbatim>\<open>SELECT\<close> alone.
  Two calls sharing a key that run one after the other, inside the window and
  with room for both under the limit, are both allowed and the resulting count
  reflects both. When both calls read before either writes, the count still
  reflects both if the row they read is in its window with room for both, or
  if there is no row yet, because the upsert increments the stored count.
\<close>

theorem checkRateLimit_read_then_write:
  "checkRateLimit tbl now k maxRequests windowMs =
     (run_statements tbl (checkRateLimit_statements tbl now k maxRequests windowMs),
      snd (checkRateLimit_after_read (getRateLimit tbl k) now k maxRequests windowMs))
   \<and> hd (checkRateLimit_statements tbl now k maxRequests windowMs) = GetRateLimit k
   \<and> length (checkRateLimit_statements tbl now k maxRequests windowMs) =
       (if allowed (snd (checkRateLimit tbl now k maxRequests windowMs)) then 2 else 1)
   \<and> (\<forall>row t1 t2.
         tbl k = Some row \<and> t1 - window_start row < windowMs
         \<and> t2 - window_start row < windowMs \<and> rl_count row + 2 \<le> maxRequests \<longrightarrow>
         list_all allowed (snd (checkRateLimit_calls tbl k maxRequests windowMs [t1, t2]))
         \<and> map_option rl_count
              (fst (checkRateLimit_calls tbl k maxRequests windowMs [t1, t2]) k)
             = Some (rl_count row + 2)
         \<and> allowed (fst (snd (checkRateLimit_reads_first tbl t1 t2 k maxRequests windowMs)))
         \<and> allowed (snd (snd (checkRateLimit_reads_first tbl t1 t2 k maxRequests windowMs)))
         \<and> map_option rl_count
              (fst (checkRateLimit_reads_first tbl t1 t2 k maxRequests windowMs) k)
             = Some (rl_count row + 2))
   \<and> (\<forall>t1 t2.
         tbl k = None \<longrightarrow>
         allowed (fst (snd (checkRateLimit_reads_first tbl t1 t2 k maxRequests windowMs)))
         \<and> allowed (snd (snd (checkRateLimit_reads_first tbl t1 t2 k maxRequests windowMs)))
         \<and> map_option rl_count
              (fst (checkRateLimit_reads_first tbl t1 t2 k maxRequests windowMs) k)
             = Some 2)"
  using checkRateLimit_as_statements [of tbl now k maxRequests windowMs]
    checkRateLimit_statements_shape [of tbl now k maxRequests windowMs]
    two_calls_in_turn [of tbl k _ _ windowMs _ maxRequests]
    two_calls_reads_first_in_window [of tbl k _ _ windowMs _ maxRequests]
    two_calls_reads_first_no_row [of tbl k _ _ maxRequests windowMs]
  by blast

theorem checkRateLimit_read_then_write_witness:
  "list_all allowed (snd (checkRateLimit_calls
       (Map.empty(''ip:10.0.0.1'' \<mapsto> \<lparr>rl_count = 1, window_start = 0, last_request = 0\<rparr>))
       ''ip:10.0.0.1'' 3 3600000 [1000, 1001]))
   \<and> map_option rl_count (fst (checkRateLimit_calls
       (Map.empty(''ip:10.0.0.1'' \<mapsto> \<lparr>rl_count = 1, window_start = 0, last_request = 0\<rparr>))
       ''ip:10.0.0.1'' 3 3600000 [1000, 1001]) ''ip:10.0.0.1'') = Some 3
   \<and> map_option rl_count (fst (checkRateLimit_reads_first
       (Map.empty(''ip:10.0.0.1'' \<mapsto> \<lparr>rl_count = 1, window_start = 0, last_request = 0\<rparr>))
       1000 1001 ''ip:10.0.0.1'' 3 3600000) ''ip:10.0.0.1'') = Some 3
   \<and> map_option rl_count (fst (checkRateLimit_reads_first Map.empty
       1000 1001 ''ip:10.0.0.1'' 3 3600000) ''ip:10.0.0.1'') = Some 2
   \<and> length (checkRateLimit_statements Map.empty 1000 ''ip:10.0.0.1'' 3 3600000) = 2"
proof -
  let ?row = "\<lparr>rl_count = 1, window_start = 0, last_request = 0\<rparr>"
  let ?tbl = "Map.empty(''ip:10.0.0.1'' \<mapsto> ?row)"
  note rows = checkRateLimit_read_then_write
    [of ?tbl 1000 "''ip:10.0.0.1''" 3 3600000,
     THEN conjunct2, THEN conjunct2, THEN conjunct2, THEN conjunct1, rule_format,
     of ?row 1000 1001]
  note none = checkRateLimit_read_then_write
    [of Map.empty 1000 "''ip:10.0.0.1''" 3 3600000,
     THEN conjunct2, THEN conjunct2, THEN conjunct2, THEN conjunct2, rule_format,
     of 1000 1001]
  note len = checkRateLimit_read_then_write
    [of Map.empty 1000 "''ip:10.0.0.1''" 3 3600000,
     THEN conjunct2, THEN conjunct2, THEN conjunct1]
  have "allowed (snd (checkRateLimit Map.empty 1000 ''ip:10.0.0.1'' 3 3600000))"
    by (simp add: checkRateLimit_def getRateLimit_def)
  with len have "length (checkRateLimit_statements Map.empty 1000 ''ip:10.0.0.1'' 3 3600000) = 2"
    by simp
  then show ?thesis
    using rows none by simp
qed

section \<open>Properties of the block gate and of the escalation\<close>

text \<open>
  C3. For every address and every positive number of minutes: right after
  \<^verbatim>\<open>blockIP(ip, m)\<close>, at the same instant, \<^verbatim>\<open>isIPBlocked(ip)\<close> returns
  \<open>blocked = true\<close> and leaves the row, whose \<^verbatim>\<open>blocked_until\<close> is \<open>m\<close>
  minutes ahead, and so it does at every instant up to \<^verbatim>\<open>blocked_until\<close>; at
  any instant past the stored \<^verbatim>\<open>blocked_until\<close> it returns
  \<open>blocked = false\<close> and deletes the row, and a second \<^verbatim>\<open>isIPBlocked(ip)\<close>, at
  whatever instant, returns \<open>blocked = false\<close> again and changes nothing. The
  model has no failing branch on this path: every call returns a result.
\<close>

theorem blockIP_then_isIPBlocked:
  assumes "0 < minutes"
  shows "let tbl1 = fst (blockIP tbl now ip minutes why);
             until = now + minutes * 60 * 1000
         in map_option blocked_until (tbl1 ip) = Some until
          \<and> blocked (snd (isIPBlocked tbl1 now ip))
          \<and> fst (isIPBlocked tbl1 now ip) = tbl1
          \<and> (\<forall>t. t \<le> until \<longrightarrow>
                 blocked (snd (isIPBlocked tbl1 t ip)) \<and> fst (isIPBlocked tbl1 t ip) = tbl1)
          \<and> (\<forall>t. until < t \<longrightarrow>
                 (let tbl2 = fst (isIPBlocked tbl1 t ip)
                  in \<not> blocked (snd (isIPBlocked tbl1 t ip))
                   \<and> tbl2 ip = None
                   \<and> (\<forall>t'. isIPBlocked tbl2 t' ip = (tbl2, not_blocked))))"
  using assms
  by (auto simp: blockIP_def insertIPBlock_def isIPBlocked_def getIPBlock_def deleteIPBlock_def
      not_blocked_def Let_def split: option.splits)

theorem blockIP_then_isIPBlocked_witness:
  "blocked (snd (isIPBlocked (fst (blockIP Map.empty 1000 ''10.0.0.1'' 30 default_block_reason))
              1000 ''10.0.0.1''))
   \<and> \<not> blocked (snd (isIPBlocked
              (fst (blockIP Map.empty 1000 ''10.0.0.1'' 30 default_block_reason))
              1801001 ''10.0.0.1''))
   \<and> fst (isIPBlocked (fst (blockIP Map.empty 1000 ''10.0.0.1'' 30 default_block_reason))
              1801001 ''10.0.0.1'') ''10.0.0.1'' = None"
  using blockIP_then_isIPBlocked [of 30 Map.empty 1000 "''10.0.0.1''" default_block_reason]
  by (simp add: Let_def)

text \<open>
  C4. For every address, a call of \<^verbatim>\<open>incrementSuspiciousAttempts\<close> leaves the
  address's counter in memory one higher than it was (a missing entry counts
  as 0); it returns true exactly when the incremented counter has reached
  \<^verbatim>\<open>MAX_SUSPICIOUS_ATTEMPTS\<close>, which is 5. When it returns true the counter
  keeps its incremented value and \<^verbatim>\<open>ip_blocks\<close> holds a row for the address
  that ends 30 minutes from now: a new row with \<open>attempts = 1\<close>, or the row
  already there with \<open>attempts\<close> one higher and \<^verbatim>\<open>blocked_until\<close> refreshed.
  When it returns false \<^verbatim>\<open>ip_blocks\<close> is unchanged.
\<close>

theorem incrementSuspiciousAttempts_escalates:
  "let c = (case ipAttempts s ip of None \<Rightarrow> 0 | Some r \<Rightarrow> count r);
       s' = fst (incrementSuspiciousAttempts s now ip);
       b = snd (incrementSuspiciousAttempts s now ip)
   in ipAttempts s' ip = Some \<lparr>count = c + 1, lastAttempt = now\<rparr>
    \<and> (b \<longleftrightarrow> MAX_SUSPICIOUS_ATTEMPTS \<le> c + 1)
    \<and> MAX_SUSPICIOUS_ATTEMPTS = 5
    \<and> (b \<longrightarrow>
          (case ip_blocks (db s) ip of
             None \<Rightarrow>
               ip_blocks (db s') ip =
                 Some \<lparr>blocked_at = now, blocked_until = now + 30 * 60 * 1000,
                       block_reason = default_block_reason, block_attempts = 1\<rparr>
           | Some row \<Rightarrow>
               ip_blocks (db s') ip =
                 Some (row\<lparr>blocked_at := now, blocked_until := now + 30 * 60 * 1000,
                           block_reason := default_block_reason,
                           block_attempts := block_attempts row + 1\<rparr>)))
    \<and> (\<not> b \<longrightarrow> ip_blocks (db s') = ip_blocks (db s))"
  by (auto simp: incrementSuspiciousAttempts_def server_blockIP_def blockIP_def
      insertIPBlock_def MAX_SUSPICIOUS_ATTEMPTS_def IP_BLOCK_DURATION_MINUTES_def Let_def
      split: option.splits)

theorem incrementSuspiciousAttempts_escalates_witness:
  "snd (incrementSuspiciousAttempts
          (empty_server\<lparr>ipAttempts := Map.empty(''10.0.0.1'' \<mapsto> \<lparr>count = 4, lastAttempt = 0\<rparr>)\<rparr>)
          1000 ''10.0.0.1'')
   \<and> ip_blocks (db (fst (incrementSuspiciousAttempts
          (empty_server\<lparr>ipAttempts := Map.empty(''10.0.0.1'' \<mapsto> \<lparr>count = 4, lastAttempt = 0\<rparr>)\<rparr>)
          1000 ''10.0.0.1''))) ''10.0.0.1''
       = Some \<lparr>blocked_at = 1000, blocked_until = 1801000,
               block_reason = default_block_reason, block_attempts = 1\<rparr>
   \<and> ipAttempts (fst (incrementSuspiciousAttempts
          (empty_server\<lparr>ipAttempts := Map.empty(''10.0.0.1'' \<mapsto> \<lparr>count = 4, lastAttempt = 0\<rparr>)\<rparr>)
          1000 ''10.0.0.1'')) ''10.0.0.1''
       = Some \<lparr>count = 5, lastAttempt = 1000\<rparr>
   \<and> \<not> snd (incrementSuspiciousAttempts empty_server 1000 ''10.0.0.1'')
   \<and> ip_blocks (db (fst (incrementSuspiciousAttempts empty_server 1000 ''10.0.0.1'')))
       = Map.empty
   \<and> ip_blocks (db (fst (incrementSuspiciousAttempts blocked_server 2000 ''10.0.0.1'')))
         ''10.0.0.1''
       = Some \<lparr>blocked_at = 2000, blocked_until = 1802000,
               block_reason = default_block_reason, block_attempts = 2\<rparr>"
  using incrementSuspiciousAttempts_escalates
    [of "empty_server\<lparr>ipAttempts := Map.empty(''10.0.0.1'' \<mapsto> \<lparr>count = 4, lastAttempt = 0\<rparr>)\<rparr>"
        "''10.0.0.1''" 1000]
    incrementSuspiciousAttempts_escalates [of empty_server "''10.0.0.1''" 1000]
    incrementSuspiciousAttempts_escalates [of blocked_server "''10.0.0.1''" 2000]
  by (simp add: Let_def empty_server_def blocked_server_def empty_database_def)

section \<open>Properties of the registration endpoint\<close>

lemma handler_email_denied:
  assumes "snd (checkHoneypot d now req)" and "validation_errors req = []"
    and "checkRateLimit (rate_limits d) now (''email:'' @ body_emailCapitano req) 1 3600000
           = (rl1, r1)"
    and "\<not> allowed r1"
  shows "iscrizione_handler lib d now uuid req =
           (d\<lparr>rate_limits := rl1\<rparr>,
            \<lparr>http_status = 429, http_success = False, message = msg_email_limit,
             response_id = None\<rparr>,
            [(''email:'' @ body_emailCapitano req, 1, 3600000)])"
  using assms
  by (auto simp: iscrizione_handler_def checkHoneypot_def Let_def split: option.splits)

lemma handler_ip_denied:
  assumes "snd (checkHoneypot d now req)" and "validation_errors req = []"
    and "checkRateLimit (rate_limits d) now (''email:'' @ body_emailCapitano req) 1 3600000
           = (rl1, r1)"
    and "allowed r1"
    and "checkRateLimit rl1 now (''ip:'' @ req_ip req) 3 3600000 = (rl2, r2)"
    and "\<not> allowed r2"
  shows "iscrizione_handler lib d now uuid req =
           (d\<lparr>rate_limits := rl2\<rparr>,
            \<lparr>http_status = 429, http_success = False, message = msg_ip_limit,
             response_id = None\<rparr>,
            [(''email:'' @ body_emailCapitano req, 1, 3600000),
             (''ip:'' @ req_ip req, 3, 3600000)])"
  using assms
  by (auto simp: iscrizione_handler_def checkHoneypot_def Let_def split: option.splits)

lemma handler_both_allowed_calls:
  assumes "snd (checkHoneypot d now req)" and "validation_errors req = []"
    and "checkRateLimit (rate_limits d) now (''email:'' @ body_emailCapitano req) 1 3600000
           = (rl1, r1)"
    and "allowed r1"
    and "checkRateLimit rl1 now (''ip:'' @ req_ip req) 3 3600000 = (rl2, r2)"
    and "allowed r2"
  shows "snd (snd (iscrizione_handler lib d now uuid req)) =
            [(''email:'' @ body_emailCapitano req, 1, 3600000),
             (''ip:'' @ req_ip req, 3, 3600000)]"
  using assms
  by (auto simp: iscrizione_handler_def checkHoneypot_def Let_def split: option.splits sum.splits)

lemma handler_rejected_early:
  assumes "\<not> snd (checkHoneypot d now req) \<or> validation_errors req \<noteq> []"
  shows "snd (snd (iscrizione_handler lib d now uuid req)) = []
     \<and> http_status (fst (snd (iscrizione_handler lib d now uuid req))) = 400
     \<and> iscrizioni (fst (iscrizione_handler lib d now uuid req)) = iscrizioni d
     \<and> rate_limits (fst (iscrizione_handler lib d now uuid req)) = rate_limits d"
  using assms
  by (auto simp: iscrizione_handler_def checkHoneypot_def logSuspiciousActivity_def Let_def
      split: option.splits)


lemma handler_both_allowed_status:
  assumes "snd (checkHoneypot d now req)" and "validation_errors req = []"
    and "checkRateLimit (rate_limits d) now (''email:'' @ body_emailCapitano req) 1 3600000
           = (rl1, r1)"
    and "allowed r1"
    and "checkRateLimit rl1 now (''ip:'' @ req_ip req) 3 3600000 = (rl2, r2)"
    and "allowed r2"
  shows "iscrizioni (fst (iscrizione_handler lib d now uuid req)) = iscrizioni d
     \<or> http_status (fst (snd (iscrizione_handler lib d now uuid req))) = 200"
  using assms
  by (auto simp: iscrizione_handler_def checkHoneypot_def Let_def split: option.splits sum.splits)

lemma handler_iscrizioni_changed:
  assumes "iscrizioni (fst (iscrizione_handler lib d now uuid req)) \<noteq> iscrizioni d"
  shows "http_status (fst (snd (iscrizione_handler lib d now uuid req))) = 200"
proof -
  obtain rl1 r1 where c1:
    "checkRateLimit (rate_limits d) now (''email:'' @ body_emailCapitano req) 1 3600000
       = (rl1, r1)"
    by (cases "checkRateLimit (rate_limits d) now (''email:'' @ body_emailCapitano req)
                 1 3600000")
  obtain rl2 r2 where c2: "checkRateLimit rl1 now (''ip:'' @ req_ip req) 3 3600000 = (rl2, r2)"
    by (cases "checkRateLimit rl1 now (''ip:'' @ req_ip req) 3 3600000")
  have passes: "snd (checkHoneypot d now req) \<and> validation_errors req = []"
    using assms handler_rejected_early [of d now req lib uuid] by blast
  then have p1: "snd (checkHoneypot d now req)" and p2: "validation_errors req = []"
    by simp_all
  have a1: "allowed r1"
    using assms handler_email_denied [OF p1 p2 c1, of lib uuid] by (cases "allowed r1") auto
  have a2: "allowed r2"
    using assms handler_ip_denied [OF p1 p2 c1 a1 c2, of lib uuid] by (cases "allowed r2") auto
  show ?thesis
    using assms handler_both_allowed_status [OF p1 p2 c1 a1 c2 a2, of lib uuid] by simp
qed

text \<open>
  C5, as the claim states it, fails: when the email's key has used its one
  request of the hour, the handler answers after the first call of the gate and
  never calls it for the address. The gate is called once, not twice.
\<close>

theorem handler_gate_counterexample:
  "snd (snd (iscrizione_handler plain_library
       (empty_database\<lparr>rate_limits :=
          Map.empty(''email:mario@example.it'' \<mapsto>
            \<lparr>rl_count = 1, window_start = 0, last_request = 0\<rparr>)\<rparr>)
       1000 ''id-1'' example_request))
   = [(''email:mario@example.it'', 1, 3600000)]"
  by (simp add: iscrizione_handler_def checkHoneypot_def or_null_def example_request_def
      empty_database_def checkRateLimit_def getRateLimit_def Let_def)

text \<open>
  C5, amended. For every registration submission that passes the honeypot and
  the validation, the handler first calls the gate with key
  \<open>email:<submitter email>\<close> and limit 1 per 3600000 ms. If that call is
  denied, it is the only call, the response is a 429 and no registration is
  created. Otherwise the handler calls the gate once more, with key
  \<open>ip:<caller ip>\<close> and limit 3 per 3600000 ms; if this call is denied the
  response is a 429 and no registration is created. The table of registrations
  changes only if both calls returned \<open>allowed = true\<close>, and then the response
  is a 200.
\<close>

theorem handler_gate_calls:
  assumes "snd (checkHoneypot d now req)" and "validation_errors req = []"
  shows "let email_call = (''email:'' @ body_emailCapitano req, 1, 3600000);
             ip_call = (''ip:'' @ req_ip req, 3, 3600000);
             (rl1, r1) = checkRateLimit (rate_limits d) now (''email:'' @ body_emailCapitano req)
                           1 3600000;
             (rl2, r2) = checkRateLimit rl1 now (''ip:'' @ req_ip req) 3 3600000;
             (d', response, calls) = iscrizione_handler lib d now uuid req
         in (\<not> allowed r1 \<longrightarrow>
               calls = [email_call] \<and> http_status response = 429 \<and> iscrizioni d' = iscrizioni d)
          \<and> (allowed r1 \<longrightarrow> calls = [email_call, ip_call])
          \<and> (allowed r1 \<and> \<not> allowed r2 \<longrightarrow>
               http_status response = 429 \<and> iscrizioni d' = iscrizioni d)
          \<and> (iscrizioni d' \<noteq> iscrizioni d \<longrightarrow>
               allowed r1 \<and> allowed r2 \<and> http_status response = 200)"
proof -
  obtain rl1 r1 where c1:
    "checkRateLimit (rate_limits d) now (''email:'' @ body_emailCapitano req) 1 3600000
       = (rl1, r1)"
    by (cases "checkRateLimit (rate_limits d) now (''email:'' @ body_emailCapitano req)
                 1 3600000")
  obtain rl2 r2 where c2: "checkRateLimit rl1 now (''ip:'' @ req_ip req) 3 3600000 = (rl2, r2)"
    by (cases "checkRateLimit rl1 now (''ip:'' @ req_ip req) 3 3600000")
  obtain d' response calls where h:
    "iscrizione_handler lib d now uuid req = (d', response, calls)"
    by (cases "iscrizione_handler lib d now uuid req")
  have denied1: "calls = [(''email:'' @ body_emailCapitano req, 1, 3600000)]
      \<and> http_status response = 429 \<and> iscrizioni d' = iscrizioni d" if "\<not> allowed r1"
    using handler_email_denied [OF assms c1 that, of lib uuid] h by simp
  have denied2: "http_status response = 429 \<and> iscrizioni d' = iscrizioni d"
    if "allowed r1" "\<not> allowed r2"
    using handler_ip_denied [OF assms c1 that(1) c2 that(2), of lib uuid] h by simp
  have two: "calls = [(''email:'' @ body_emailCapitano req, 1, 3600000),
                      (''ip:'' @ req_ip req, 3, 3600000)]" if "allowed r1"
  proof (cases "allowed r2")
    case True
    then show ?thesis
      using handler_both_allowed_calls [OF assms c1 that c2, of lib uuid] h by simp
  next
    case False
    then show ?thesis
      using handler_ip_denied [OF assms c1 that c2, of lib uuid] h by simp
  qed
  have changed: "allowed r1 \<and> allowed r2 \<and> http_status response = 200"
    if "iscrizioni d' \<noteq> iscrizioni d"
  proof (intro conjI)
    show "allowed r1" using that denied1 by blast
    then show "allowed r2" using that denied2 by blast
    show "http_status response = 200"
      using that handler_iscrizioni_changed [of lib d now uuid req] h by simp
  qed
  show ?thesis
    unfolding Let_def c1 c2 h prod.case
    using denied1 denied2 two changed by blast
qed

theorem handler_gate_calls_witness:
  "snd (snd (iscrizione_handler plain_library empty_database 1000 ''id-1'' example_request))
     = [(''email:mario@example.it'', 1, 3600000), (''ip:10.0.0.1'', 3, 3600000)]
   \<and> http_status (fst (snd (iscrizione_handler plain_library
        (empty_database\<lparr>rate_limits :=
          Map.empty(''email:mario@example.it'' \<mapsto>
            \<lparr>rl_count = 1, window_start = 0, last_request = 0\<rparr>)\<rparr>)
        1000 ''id-1'' example_request))) = 429"
  using handler_gate_calls [of empty_database 1000 example_request plain_library "''id-1''"]
    handler_gate_calls
      [of "empty_database\<lparr>rate_limits :=
          Map.empty(''email:mario@example.it'' \<mapsto>
            \<lparr>rl_count = 1, window_start = 0, last_request = 0\<rparr>)\<rparr>"
        1000 example_request plain_library "''id-1''"]
  by (simp add: Let_def empty_database_def example_request_def checkHoneypot_def or_null_def
      checkRateLimit_def getRateLimit_def upsertRateLimit_def split: prod.splits)

lemma createIscrizione_unique_violation:
  assumes "emailCapitano form \<in> set (map email_capitano rows)"
  shows "createIscrizione rows now uuid form =
           Inr (rows, \<lparr>success = False, result_id = None, iscrizione = None,
                       error = Some email_gia_registrata\<rparr>)"
  using assms by (simp add: createIscrizione_def insertIscrizione_def)

lemma handler_both_allowed_duplicate:
  assumes "snd (checkHoneypot d now req)" and "validation_errors req = []"
    and "checkRateLimit (rate_limits d) now (''email:'' @ body_emailCapitano req) 1 3600000
           = (rl1, r1)"
    and "allowed r1"
    and "checkRateLimit rl1 now (''ip:'' @ req_ip req) 3 3600000 = (rl2, r2)"
    and "allowed r2"
    and "normalizeEmail lib (body_emailCapitano req) \<in> set (map email_capitano (iscrizioni d))"
  shows "iscrizione_handler lib d now uuid req =
           (d\<lparr>rate_limits := rl2\<rparr>,
            \<lparr>http_status = 400, http_success = False, message = email_gia_registrata,
             response_id = None\<rparr>,
            [(''email:'' @ body_emailCapitano req, 1, 3600000),
             (''ip:'' @ req_ip req, 3, 3600000)])"
proof -
  have nonempty: "or_null (Some email_gia_registrata) = Some email_gia_registrata"
    by (simp add: or_null_def email_gia_registrata_def)
  show ?thesis
    using assms
    by (auto simp: iscrizione_handler_def checkHoneypot_def Let_def
        createIscrizione_unique_violation nonempty split: option.splits)
qed

text \<open>
  C10. For every registration whose captain email equals the captain email of
  a stored registration, \<^verbatim>\<open>createIscrizione\<close> returns \<open>success = false\<close> with
  the error \<open>Email gia registrata\<close> (accented in the code) and leaves the table as
  it was. The refusal depends on no clock and no counter: through the endpoint,
  whatever the instant and the state of the rate limits, such a submission
  leaves the table unchanged and is never answered with a 200; when both
  rate-limit windows have expired (or never started) it is answered with the
  400 that carries that error.
\<close>

theorem createIscrizione_duplicate_email:
  "(emailCapitano form \<in> set (map email_capitano rows) \<longrightarrow>
      createIscrizione rows now uuid form =
        Inr (rows, \<lparr>success = False, result_id = None, iscrizione = None,
                    error = Some email_gia_registrata\<rparr>))
   \<and> (normalizeEmail lib (body_emailCapitano req) \<in> set (map email_capitano (iscrizioni d)) \<longrightarrow>
        iscrizioni (fst (iscrizione_handler lib d now uuid req)) = iscrizioni d
        \<and> http_status (fst (snd (iscrizione_handler lib d now uuid req))) \<noteq> 200
        \<and> (snd (checkHoneypot d now req) \<and> validation_errors req = []
             \<and> opens_window (rate_limits d) now (''email:'' @ body_emailCapitano req) 3600000
             \<and> opens_window (rate_limits d) now (''ip:'' @ req_ip req) 3600000 \<longrightarrow>
             http_status (fst (snd (iscrizione_handler lib d now uuid req))) = 400
             \<and> message (fst (snd (iscrizione_handler lib d now uuid req)))
                 = email_gia_registrata))"
proof (intro conjI impI)
  assume "emailCapitano form \<in> set (map email_capitano rows)"
  then show "createIscrizione rows now uuid form =
        Inr (rows, \<lparr>success = False, result_id = None, iscrizione = None,
                    error = Some email_gia_registrata\<rparr>)"
    by (rule createIscrizione_unique_violation)
next
  assume dup: "normalizeEmail lib (body_emailCapitano req)
                 \<in> set (map email_capitano (iscrizioni d))"
  obtain rl1 r1 where c1:
    "checkRateLimit (rate_limits d) now (''email:'' @ body_emailCapitano req) 1 3600000
       = (rl1, r1)"
    by (cases "checkRateLimit (rate_limits d) now (''email:'' @ body_emailCapitano req)
                 1 3600000")
  obtain rl2 r2 where c2: "checkRateLimit rl1 now (''ip:'' @ req_ip req) 3 3600000 = (rl2, r2)"
    by (cases "checkRateLimit rl1 now (''ip:'' @ req_ip req) 3 3600000")
  have both: "iscrizioni (fst (iscrizione_handler lib d now uuid req)) = iscrizioni d
      \<and> http_status (fst (snd (iscrizione_handler lib d now uuid req))) \<noteq> 200"
  proof (cases "snd (checkHoneypot d now req) \<and> validation_errors req = []")
    case False
    then show ?thesis
      using handler_rejected_early [of d now req lib uuid] by auto
  next
    case True
    then have p1: "snd (checkHoneypot d now req)" and p2: "validation_errors req = []"
      by simp_all
    show ?thesis
    proof (cases "allowed r1")
      case False
      then show ?thesis
        using handler_email_denied [OF p1 p2 c1, of lib uuid] by simp
    next
      case a1: True
      show ?thesis
      proof (cases "allowed r2")
        case False
        then show ?thesis
          using handler_ip_denied [OF p1 p2 c1 a1 c2, of lib uuid] by simp
      next
        case True
        then show ?thesis
          using handler_both_allowed_duplicate [OF p1 p2 c1 a1 c2 True dup, of uuid] by simp
      qed
    qed
  qed
  from both show "iscrizioni (fst (iscrizione_handler lib d now uuid req)) = iscrizioni d"
    by simp
  from both show "http_status (fst (snd (iscrizione_handler lib d now uuid req))) \<noteq> 200"
    by simp
  assume open_: "snd (checkHoneypot d now req) \<and> validation_errors req = []
             \<and> opens_window (rate_limits d) now (''email:'' @ body_emailCapitano req) 3600000
             \<and> opens_window (rate_limits d) now (''ip:'' @ req_ip req) 3600000"
  then have p1: "snd (checkHoneypot d now req)" and p2: "validation_errors req = []"
    and o1: "opens_window (rate_limits d) now (''email:'' @ body_emailCapitano req) 3600000"
    and o2: "opens_window (rate_limits d) now (''ip:'' @ req_ip req) 3600000"
    by simp_all
  from o1 obtain t1 where
    "checkRateLimit (rate_limits d) now (''email:'' @ body_emailCapitano req) 1 3600000 =
       (t1, \<lparr>allowed = True, remaining = 1 - 1, retryAfter = None\<rparr>)"
    by (rule checkRateLimit_opens [where maxRequests = 1])
  with c1 have a1: "allowed r1"
    by auto
  have "rl1 (''ip:'' @ req_ip req) = rate_limits d (''ip:'' @ req_ip req)"
    using c1
    by (auto simp: checkRateLimit_def getRateLimit_def upsertRateLimit_def resetRateLimit_def
        Let_def split: option.splits if_splits)
  then have "opens_window rl1 now (''ip:'' @ req_ip req) 3600000"
    using o2 by (simp add: opens_window_def)
  then obtain t2 where
    "checkRateLimit rl1 now (''ip:'' @ req_ip req) 3 3600000 =
       (t2, \<lparr>allowed = True, remaining = 3 - 1, retryAfter = None\<rparr>)"
    by (rule checkRateLimit_opens [where maxRequests = 3])
  with c2 have a2: "allowed r2"
    by auto
  have rejected: "iscrizione_handler lib d now uuid req =
           (d\<lparr>rate_limits := rl2\<rparr>,
            \<lparr>http_status = 400, http_success = False, message = email_gia_registrata,
             response_id = None\<rparr>,
            [(''email:'' @ body_emailCapitano req, 1, 3600000),
             (''ip:'' @ req_ip req, 3, 3600000)])"
    using p1 p2 c1 a1 c2 a2 dup by (rule handler_both_allowed_duplicate)
  show "http_status (fst (snd (iscrizione_handler lib d now uuid req))) = 400"
    by (simp add: rejected)
  show "message (fst (snd (iscrizione_handler lib d now uuid req))) = email_gia_registrata"
    by (simp add: rejected)
qed

theorem createIscrizione_duplicate_email_witness:
  "createIscrizione [example_row] 7200000 ''id-2'' example_data =
     Inr ([example_row], \<lparr>success = False, result_id = None, iscrizione = None,
                          error = Some email_gia_registrata\<rparr>)
   \<and> iscrizioni (fst (iscrizione_handler plain_library
        (empty_database\<lparr>iscrizioni := [example_row]\<rparr>) 7200000 ''id-2'' example_request))
       = [example_row]
   \<and> http_status (fst (snd (iscrizione_handler plain_library
        (empty_database\<lparr>iscrizioni := [example_row]\<rparr>) 7200000 ''id-2'' example_request)))
       = 400"
  using createIscrizione_duplicate_email
    [of example_data "[example_row]" 7200000 "''id-2''" plain_library example_request
        "empty_database\<lparr>iscrizioni := [example_row]\<rparr>"]
  by (simp add: example_data_def example_row_def example_request_def plain_library_def
      empty_database_def opens_window_def checkHoneypot_def or_null_def)

section \<open>Properties of the client's queue\<close>

lemma sendEvent_fails_requeue:
  assumes "\<not> net now ev" and "attempts ev < retryAttempts (config st)"
  shows "sendEvent net st now ev =
           (st\<lparr>fetches := fetches st
                  @ [(now, apiBase (config st) @ ''/'' @ endpoint ev, JObj (data ev))],
               retryQueue := retryQueue st @ [ev\<lparr>attempts := Suc (attempts ev)\<rparr>],
               timers := timers st
                  @ [now + retryDelay (config st) * int (Suc (attempts ev))]\<rparr>,
            False)"
  using assms by (simp add: sendEvent_def Let_def)

lemma sendEvent_fails_drop:
  assumes "\<not> net now ev" and "\<not> attempts ev < retryAttempts (config st)"
  shows "sendEvent net st now ev =
           (st\<lparr>fetches := fetches st
                  @ [(now, apiBase (config st) @ ''/'' @ endpoint ev, JObj (data ev))]\<rparr>,
            False)"
  using assms by (simp add: sendEvent_def Let_def)

lemma timer_retries_single:
  assumes "retryQueue st = [ev]" and "timers st = [t]"
  shows "handle always_fails st (t, TimerFires t) =
           fst (sendEvent always_fails (st\<lparr>timers := [], retryQueue := []\<rparr>) t ev)"
  using assms by (simp add: handle_def retryFailedEvents_def sendEvents_def)

lemma run_timers_single:
  assumes "retryQueue st = [ev]" and "timers st = [t]"
    and "attempts ev + n = retryAttempts (config st)"
  shows "\<exists>final. run_timers always_fails (Suc n) st = Some final
           \<and> fetches final =
               fetches st
               @ map (\<lambda>i. (i, apiBase (config st) @ ''/'' @ endpoint ev, JObj (data ev)))
                   (retry_instants (retryDelay (config st)) t (attempts ev) n)
           \<and> retryQueue final = [] \<and> timers final = []"
  using assms
proof (induction n arbitrary: st ev t)
  case 0
  then have drop: "\<not> attempts ev < retryAttempts (config st)"
    by simp
  have "handle always_fails st (t, TimerFires t) =
          st\<lparr>timers := [], retryQueue := [],
             fetches := fetches st
               @ [(t, apiBase (config st) @ ''/'' @ endpoint ev, JObj (data ev))]\<rparr>"
    using "0.prems"(1,2) drop
    by (simp add: timer_retries_single sendEvent_fails_drop always_fails_def)
  then show ?case
    using "0.prems"(2) by simp
next
  case (Suc n)
  then have again: "attempts ev < retryAttempts (config st)"
    by simp
  let ?ev' = "ev\<lparr>attempts := Suc (attempts ev)\<rparr>"
  let ?t' = "t + retryDelay (config st) * int (Suc (attempts ev))"
  let ?st' = "st\<lparr>timers := [?t'], retryQueue := [?ev'],
                fetches := fetches st
                  @ [(t, apiBase (config st) @ ''/'' @ endpoint ev, JObj (data ev))]\<rparr>"
  have step: "handle always_fails st (t, TimerFires t) = ?st'"
    using Suc.prems(1,2) again
    by (simp add: timer_retries_single sendEvent_fails_requeue always_fails_def)
  have "retryQueue ?st' = [?ev']" and "timers ?st' = [?t']"
    and "attempts ?ev' + n = retryAttempts (config ?st')"
    using Suc.prems(3) by simp_all
  then obtain final where
    "run_timers always_fails (Suc n) ?st' = Some final"
    "fetches final =
       fetches ?st'
       @ map (\<lambda>i. (i, apiBase (config ?st') @ ''/'' @ endpoint ?ev', JObj (data ?ev')))
           (retry_instants (retryDelay (config ?st')) ?t' (attempts ?ev') n)"
    "retryQueue final = []" "timers final = []"
    using Suc.IH [of ?st' ?ev' ?t'] by blast
  moreover have "run_timers always_fails (Suc (Suc n)) st = run_timers always_fails (Suc n) ?st'"
    using Suc.prems(2) step by (subst run_timers.simps) simp
  ultimately show ?case
    by simp
qed

lemma length_retry_instants: "length (retry_instants d t k n) = Suc n"
  by (induction n arbitrary: t k) simp_all

lemma retry_instants_gap:
  "j < n \<Longrightarrow>
     retry_instants d t k n ! Suc j - retry_instants d t k n ! j = d * int (k + j + 1)"
proof (induction n arbitrary: t k j)
  case 0
  then show ?case by simp
next
  case (Suc n)
  show ?case
  proof (cases j)
    case 0
    then show ?thesis
      by (cases n) simp_all
  next
    case (Suc i)
    with Suc.prems have "i < n" by simp
    then show ?thesis
      using Suc.IH [of i "t + d * int (Suc k)" "Suc k"] Suc by simp
  qed
qed

lemma sendEvents_always_fails:
  "sendEvents always_fails s t es =
     s\<lparr>fetches := fetches s
          @ map (\<lambda>e. (t, apiBase (config s) @ ''/'' @ endpoint e, JObj (data e))) es,
       retryQueue := retryQueue s
          @ map (\<lambda>e. e\<lparr>attempts := Suc (attempts e)\<rparr>)
              (filter (\<lambda>e. attempts e < retryAttempts (config s)) es),
       timers := timers s
          @ map (\<lambda>e. t + retryDelay (config s) * int (Suc (attempts e)))
              (filter (\<lambda>e. attempts e < retryAttempts (config s)) es)\<rparr>"
proof (induction es arbitrary: s)
  case Nil
  show ?case by (simp add: sendEvents_def)
next
  case (Cons e es)
  have unfold: "sendEvents always_fails s t (e # es) =
      sendEvents always_fails (fst (sendEvent always_fails s t e)) t es"
    by (simp add: sendEvents_def)
  show ?case
  proof (cases "attempts e < retryAttempts (config s)")
    case True
    then show ?thesis
      unfolding unfold
      by (simp add: sendEvent_fails_requeue always_fails_def Cons.IH)
  next
    case False
    then show ?thesis
      unfolding unfold
      by (simp add: sendEvent_fails_drop always_fails_def Cons.IH)
  qed
qed

lemma retry_pass_always_fails:
  "retryFailedEvents always_fails s t =
     s\<lparr>fetches := fetches s
          @ map (\<lambda>e. (t, apiBase (config s) @ ''/'' @ endpoint e, JObj (data e))) (retryQueue s),
       retryQueue := map (\<lambda>e. e\<lparr>attempts := Suc (attempts e)\<rparr>)
              (filter (\<lambda>e. attempts e < retryAttempts (config s)) (retryQueue s)),
       timers := timers s
          @ map (\<lambda>e. t + retryDelay (config s) * int (Suc (attempts e)))
              (filter (\<lambda>e. attempts e < retryAttempts (config s)) (retryQueue s))\<rparr>"
  by (simp add: retryFailedEvents_def sendEvents_always_fails Let_def)

lemma retry_pass_deliveries:
  "deliveries_of ev (retryFailedEvents always_fails s t) =
     deliveries_of ev s + length (filter (same_event ev) (retryQueue s))"
  by (simp add: retry_pass_always_fails deliveries_of_def same_event_def [abs_def] filter_map
      o_def)

lemma retry_pass_queue:
  "filter (same_event ev) (retryQueue (retryFailedEvents always_fails s t)) =
     map (\<lambda>e. e\<lparr>attempts := Suc (attempts e)\<rparr>)
       (filter (\<lambda>e. attempts e < retryAttempts (config s)) (filter (same_event ev) (retryQueue s)))"
  by (simp add: retry_pass_always_fails same_event_def [abs_def] filter_map o_def conj_commute)

lemma retry_pass_config: "config (retryFailedEvents always_fails s t) = config s"
  by (simp add: retry_pass_always_fails)

lemma retry_passes_absent:
  assumes "filter (same_event ev) (retryQueue s) = []"
  shows "deliveries_of ev (retry_passes s ps) = deliveries_of ev s"
  using assms
proof (induction ps arbitrary: s)
  case Nil
  show ?case by (simp add: retry_passes_def)
next
  case (Cons t ps)
  let ?s1 = "retryFailedEvents always_fails s t"
  have "filter (same_event ev) (retryQueue ?s1) = []"
    using Cons.prems by (simp add: retry_pass_queue)
  then have "deliveries_of ev (retry_passes ?s1 ps) = deliveries_of ev ?s1"
    by (rule Cons.IH)
  moreover have "retry_passes s (t # ps) = retry_passes ?s1 ps"
    by (simp add: retry_passes_def)
  ultimately show ?case
    using Cons.prems by (simp add: retry_pass_deliveries)
qed

lemma retry_passes_queued:
  assumes "filter (same_event ev) (retryQueue s) = [e]"
    and "attempts e \<le> retryAttempts (config s)"
  shows "deliveries_of ev (retry_passes s ps) =
           deliveries_of ev s + min (length ps) (Suc (retryAttempts (config s)) - attempts e)"
  using assms
proof (induction ps arbitrary: s e)
  case Nil
  show ?case by (simp add: retry_passes_def)
next
  case (Cons t ps)
  let ?s1 = "retryFailedEvents always_fails s t"
  have unfold: "retry_passes s (t # ps) = retry_passes ?s1 ps"
    by (simp add: retry_passes_def)
  have sent: "deliveries_of ev ?s1 = Suc (deliveries_of ev s)"
    using Cons.prems(1) by (simp add: retry_pass_deliveries)
  show ?case
  proof (cases "attempts e < retryAttempts (config s)")
    case True
    let ?e1 = "e\<lparr>attempts := Suc (attempts e)\<rparr>"
    have "filter (same_event ev) (retryQueue ?s1) = [?e1]"
      using Cons.prems(1) True by (simp add: retry_pass_queue)
    moreover have "attempts ?e1 \<le> retryAttempts (config ?s1)"
      using True by (simp add: retry_pass_config)
    ultimately have "deliveries_of ev (retry_passes ?s1 ps) =
        deliveries_of ev ?s1
          + min (length ps) (Suc (retryAttempts (config ?s1)) - attempts ?e1)"
      by (rule Cons.IH)
    then show ?thesis
      using True sent by (simp add: unfold retry_pass_config)
  next
    case False
    then have "filter (same_event ev) (retryQueue ?s1) = []"
      using Cons.prems(1) by (simp add: retry_pass_queue)
    then have "deliveries_of ev (retry_passes ?s1 ps) = deliveries_of ev ?s1"
      by (rule retry_passes_absent)
    then show ?thesis
      using False Cons.prems(2) sent by (simp add: unfold)
  qed
qed

lemma retry_passes_fresh:
  assumes "attempts ev = 0" and "filter (same_event ev) (retryQueue s) = []"
  shows "deliveries_of ev (retry_passes (fst (sendEvent always_fails s t ev)) ps) =
           deliveries_of ev s + 1 + min (length ps) (retryAttempts (config s))"
proof (cases "retryAttempts (config s)")
  case 0
  then have first: "sendEvent always_fails s t ev =
      (s\<lparr>fetches := fetches s
             @ [(t, apiBase (config s) @ ''/'' @ endpoint ev, JObj (data ev))]\<rparr>, False)"
    by (intro sendEvent_fails_drop) (simp_all add: always_fails_def)
  let ?s1 = "fst (sendEvent always_fails s t ev)"
  have "filter (same_event ev) (retryQueue ?s1) = []"
    using assms(2) by (simp add: first)
  then have "deliveries_of ev (retry_passes ?s1 ps) = deliveries_of ev ?s1"
    by (rule retry_passes_absent)
  then show ?thesis
    using 0 by (simp add: first deliveries_of_def)
next
  case (Suc n)
  let ?e1 = "ev\<lparr>attempts := Suc (attempts ev)\<rparr>"
  have first: "sendEvent always_fails s t ev =
      (s\<lparr>fetches := fetches s
             @ [(t, apiBase (config s) @ ''/'' @ endpoint ev, JObj (data ev))],
          retryQueue := retryQueue s @ [?e1],
          timers := timers s @ [t + retryDelay (config s) * int (Suc (attempts ev))]\<rparr>, False)"
    using Suc assms(1) by (intro sendEvent_fails_requeue) (simp_all add: always_fails_def)
  let ?s1 = "fst (sendEvent always_fails s t ev)"
  have "filter (same_event ev) (retryQueue ?s1) = [?e1]"
    using assms(2) by (simp add: first same_event_def)
  moreover have "attempts ?e1 \<le> retryAttempts (config ?s1)"
    using Suc assms(1) by (simp add: first)
  ultimately have "deliveries_of ev (retry_passes ?s1 ps) =
      deliveries_of ev ?s1 + min (length ps) (Suc (retryAttempts (config ?s1)) - attempts ?e1)"
    by (rule retry_passes_queued)
  then show ?thesis
    using Suc assms(1) by (simp add: first deliveries_of_def)
qed

text \<open>
  C6, as the claim states it, fails: a retry pass that runs before the event's
  own timer re-sends the event early. Here every delivery fails; the event
  fails at 5000 with one attempt counted, so its timer is due
  \<^verbatim>\<open>retryDelay * 1\<close> = 1000 ms later, but the \<^verbatim>\<open>online\<close> listener runs a retry
  pass at 5005 and the event is redelivered then, 5 ms after its failure.
\<close>

theorem retry_backoff_counterexample:
  "map fst (fetches (run_events always_fails idle_client
       [(0, Track ''event'' [(''category'', JStr ''Click'')]), (5000, BatchTick),
        (5002, Offline), (5005, Online)]))
     = [5000, 5005]
   \<and> retryDelay (config idle_client) * 1 = 1000"
  by (simp add: run_events_def handle_def queueEvent_def flushQueue_def sendEvents_def
      sendEvent_def always_fails_def idle_client_def default_config_def js_assign_def Let_def)

text \<open>
  C6, amended. Every failed delivery of an event with
  \<^verbatim>\<open>attempts < retryAttempts\<close> increments its \<^verbatim>\<open>attempts\<close>, queues it for
  retry and sets a timer \<^verbatim>\<open>retryDelay * attempts\<close> ahead; a failed delivery of
  an event whose \<^verbatim>\<open>attempts\<close> has reached \<^verbatim>\<open>retryAttempts\<close> queues nothing and
  sets no timer: the event is dropped. For every client event whose every
  delivery attempt fails and whose retries are left to its own timers (nothing
  else in the retry queue, no other pending timer, \<^verbatim>\<open>retryDelay > 0\<close>):
  delivery is attempted exactly \<^verbatim>\<open>retryAttempts + 1\<close> times in total, the
  redelivery after the \<open>j\<close>-th failure comes \<^verbatim>\<open>retryDelay\<close> times \<open>j\<close> after
  it, a delay that grows strictly with \<open>j\<close>, and in the end the event is in no
  queue and no timer is pending. Whatever else is in the retry queue and
  whenever the retry passes run, every delivery failing, each pass redelivers
  the event once as long as it is queued: after \<open>n\<close> passes it has been
  attempted \<open>1 + min n retryAttempts\<close> times, never more than
  \<^verbatim>\<open>retryAttempts + 1\<close>.
\<close>

theorem retry_backoff:
  assumes "0 < retryDelay (config st)" and "retryQueue st = []" and "timers st = []"
    and "attempts ev = 0"
  shows "(\<forall>s e t. attempts e < retryAttempts (config s) \<longrightarrow>
            retryQueue (fst (sendEvent always_fails s t e))
              = retryQueue s @ [e\<lparr>attempts := attempts e + 1\<rparr>]
            \<and> timers (fst (sendEvent always_fails s t e))
              = timers s @ [t + retryDelay (config s) * int (attempts e + 1)])
    \<and> (\<forall>s e t. retryAttempts (config s) \<le> attempts e \<longrightarrow>
            retryQueue (fst (sendEvent always_fails s t e)) = retryQueue s
            \<and> timers (fst (sendEvent always_fails s t e)) = timers s)
    \<and> (\<exists>final.
          run_timers always_fails (retryAttempts (config st))
            (fst (sendEvent always_fails st t0 ev)) = Some final
          \<and> fetches final =
              fetches st
              @ map (\<lambda>i. (i, apiBase (config st) @ ''/'' @ endpoint ev, JObj (data ev)))
                  (retry_instants (retryDelay (config st)) t0 0 (retryAttempts (config st)))
          \<and> length (fetches final) = length (fetches st) + retryAttempts (config st) + 1
          \<and> retryQueue final = [] \<and> timers final = [])
    \<and> (\<forall>j < retryAttempts (config st).
          retry_instants (retryDelay (config st)) t0 0 (retryAttempts (config st)) ! Suc j
            - retry_instants (retryDelay (config st)) t0 0 (retryAttempts (config st)) ! j
            = retryDelay (config st) * int (Suc j)
          \<and> retryDelay (config st) * int j < retryDelay (config st) * int (Suc j))
    \<and> (\<forall>s ps t. filter (same_event ev) (retryQueue s) = [] \<longrightarrow>
          deliveries_of ev (retry_passes (fst (sendEvent always_fails s t ev)) ps)
            = deliveries_of ev s + 1 + min (length ps) (retryAttempts (config s)))"
proof (intro conjI allI impI)
  fix s :: analytics and e :: client_event and t :: timestamp
  assume "attempts e < retryAttempts (config s)"
  then have "sendEvent always_fails s t e =
           (s\<lparr>fetches := fetches s
                  @ [(t, apiBase (config s) @ ''/'' @ endpoint e, JObj (data e))],
               retryQueue := retryQueue s @ [e\<lparr>attempts := Suc (attempts e)\<rparr>],
               timers := timers s @ [t + retryDelay (config s) * int (Suc (attempts e))]\<rparr>,
            False)"
    by (intro sendEvent_fails_requeue) (simp_all add: always_fails_def)
  then show "retryQueue (fst (sendEvent always_fails s t e))
              = retryQueue s @ [e\<lparr>attempts := attempts e + 1\<rparr>]"
    and "timers (fst (sendEvent always_fails s t e))
              = timers s @ [t + retryDelay (config s) * int (attempts e + 1)]"
    by simp_all
next
  fix s :: analytics and e :: client_event and t :: timestamp
  assume "retryAttempts (config s) \<le> attempts e"
  then have "sendEvent always_fails s t e =
           (s\<lparr>fetches := fetches s
                  @ [(t, apiBase (config s) @ ''/'' @ endpoint e, JObj (data e))]\<rparr>,
            False)"
    by (intro sendEvent_fails_drop) (simp_all add: always_fails_def)
  then show "retryQueue (fst (sendEvent always_fails s t e)) = retryQueue s"
    and "timers (fst (sendEvent always_fails s t e)) = timers s"
    by simp_all
next
  let ?R = "retryAttempts (config st)"
  let ?d = "retryDelay (config st)"
  let ?entry = "\<lambda>i. (i, apiBase (config st) @ ''/'' @ endpoint ev, JObj (data ev))"
  have chain: "\<exists>final.
          run_timers always_fails ?R (fst (sendEvent always_fails st t0 ev)) = Some final
          \<and> fetches final = fetches st @ map ?entry (retry_instants ?d t0 0 ?R)
          \<and> retryQueue final = [] \<and> timers final = []"
  proof (cases ?R)
    case 0
    then have "sendEvent always_fails st t0 ev = (st\<lparr>fetches := fetches st @ [?entry t0]\<rparr>, False)"
      using assms(4) by (intro sendEvent_fails_drop) (simp_all add: always_fails_def)
    then show ?thesis
      using 0 assms(2,3) by simp
  next
    case (Suc n)
    let ?ev1 = "ev\<lparr>attempts := Suc 0\<rparr>"
    let ?st1 = "st\<lparr>fetches := fetches st @ [?entry t0], retryQueue := [?ev1],
                  timers := [t0 + ?d * int (Suc 0)]\<rparr>"
    have first: "sendEvent always_fails st t0 ev = (?st1, False)"
      using sendEvent_fails_requeue [of always_fails t0 ev st] Suc assms(2,3,4)
      by (simp add: always_fails_def)
    have "retryQueue ?st1 = [?ev1]" and "timers ?st1 = [t0 + ?d * int (Suc 0)]"
      and "attempts ?ev1 + n = retryAttempts (config ?st1)"
      using Suc by simp_all
    then obtain final where
      "run_timers always_fails (Suc n) ?st1 = Some final"
      "fetches final =
         fetches ?st1
         @ map (\<lambda>i. (i, apiBase (config ?st1) @ ''/'' @ endpoint ?ev1, JObj (data ?ev1)))
             (retry_instants (retryDelay (config ?st1)) (t0 + ?d * int (Suc 0))
                (attempts ?ev1) n)"
      "retryQueue final = []" "timers final = []"
      using run_timers_single [of ?st1 ?ev1 "t0 + ?d * int (Suc 0)" n] by blast
    then show ?thesis
      using Suc first by simp
  qed
  then show "\<exists>final.
          run_timers always_fails ?R (fst (sendEvent always_fails st t0 ev)) = Some final
          \<and> fetches final = fetches st @ map ?entry (retry_instants ?d t0 0 ?R)
          \<and> length (fetches final) = length (fetches st) + ?R + 1
          \<and> retryQueue final = [] \<and> timers final = []"
    by (auto simp: length_retry_instants)
next
  fix j
  assume "j < retryAttempts (config st)"
  then show "retry_instants (retryDelay (config st)) t0 0 (retryAttempts (config st)) ! Suc j
            - retry_instants (retryDelay (config st)) t0 0 (retryAttempts (config st)) ! j
            = retryDelay (config st) * int (Suc j)"
    using retry_instants_gap [of j "retryAttempts (config st)" "retryDelay (config st)" t0 0]
    by simp
  show "retryDelay (config st) * int j < retryDelay (config st) * int (Suc j)"
    using assms(1) by simp
next
  fix s :: analytics and ps :: "timestamp list" and t :: timestamp
  assume "filter (same_event ev) (retryQueue s) = []"
  with assms(4) show "deliveries_of ev (retry_passes (fst (sendEvent always_fails s t ev)) ps)
            = deliveries_of ev s + 1 + min (length ps) (retryAttempts (config s))"
    by (rule retry_passes_fresh)
qed

theorem retry_backoff_witness:
  "\<exists>final.
     run_timers always_fails 3 (fst (sendEvent always_fails idle_client 7 example_event))
       = Some final
     \<and> map fst (fetches final) = [7, 1007, 3007, 6007]
     \<and> retryQueue final = [] \<and> timers final = []
     \<and> deliveries_of example_event
           (retry_passes (fst (sendEvent always_fails idle_client 7 example_event))
              [12, 1007, 1500, 3007, 6007]) = 4"
proof -
  have "retry_instants 1000 7 0 3 = [7, 1007, 3007, 6007]"
    by (simp add: eval_nat_numeral)
  then show ?thesis
    using retry_backoff [of idle_client example_event 7]
    by (auto simp: idle_client_def default_config_def example_event_def deliveries_of_def)
qed

text \<open>
  C7. The claim says that no delivery is attempted for a queued or retry-queued
  event while the client is offline. On the code a retry timer that comes due
  while the client is offline still sends the event: \<^verbatim>\<open>flushQueue\<close> tests
  \<^verbatim>\<open>isOnline\<close>, \<^verbatim>\<open>retryFailedEvents\<close> and \<^verbatim>\<open>sendEvent\<close> do not. Here an event
  fails at 5000, the client goes offline at 5002, and the event's timer fires at
  6000: a second delivery is attempted at 6000, offline.
\<close>

theorem retry_timer_fires_offline:
  "\<not> isOnline (run_events always_fails idle_client
       [(0, Track ''event'' [(''category'', JStr ''Click'')]), (5000, BatchTick),
        (5002, Offline)])
   \<and> map fst (fetches (run_events always_fails idle_client
       [(0, Track ''event'' [(''category'', JStr ''Click'')]), (5000, BatchTick),
        (5002, Offline)])) = [5000]
   \<and> map fst (fetches (run_events always_fails idle_client
       [(0, Track ''event'' [(''category'', JStr ''Click'')]), (5000, BatchTick),
        (5002, Offline), (6000, TimerFires 6000)])) = [5000, 6000]"
  by (simp add: run_events_def handle_def queueEvent_def flushQueue_def retryFailedEvents_def
      sendEvents_def sendEvent_def always_fails_def idle_client_def default_config_def
      js_assign_def Let_def)

section \<open>Properties of the unload tracking\<close>

lemma is_beacon_of_session:
  "is_beacon_of ''Session'' ''End''
     (now, url, JObj (js_assign
        [(''category'', JStr ''Session''), (''action'', JStr ''End''), (''value'', v),
         (''sessionData'', d)]
        [(''sessionId'', sid), (''timestamp'', ts)]))"
  "\<not> is_beacon_of ''Engagement'' ''Score''
     (now, url, JObj (js_assign
        [(''category'', JStr ''Session''), (''action'', JStr ''End''), (''value'', v),
         (''sessionData'', d)]
        [(''sessionId'', sid), (''timestamp'', ts)]))"
  by (simp_all add: is_beacon_of_def js_assign_def)

lemma is_beacon_of_score:
  "is_beacon_of ''Engagement'' ''Score''
     (now, url, JObj (js_assign
        [(''category'', JStr ''Engagement''), (''action'', JStr ''Score''), (''value'', v)]
        [(''sessionId'', sid), (''timestamp'', ts)]))"
  "\<not> is_beacon_of ''Session'' ''End''
     (now, url, JObj (js_assign
        [(''category'', JStr ''Engagement''), (''action'', JStr ''Score''), (''value'', v)]
        [(''sessionId'', sid), (''timestamp'', ts)]))"
  by (simp_all add: is_beacon_of_def js_assign_def)

lemma sendFinalData_beacons:
  assumes "hasSendBeacon st"
  shows "length (session_end_beacons (sendFinalData st now))
           = Suc (length (session_end_beacons st))"
    and "length (score_beacons (sendFinalData st now)) = Suc (length (score_beacons st))"
    and "hasSendBeacon (sendFinalData st now)"
  using assms
  by (simp_all add: sendFinalData_def sendBeacon_def session_end_beacons_def score_beacons_def
      is_beacon_of_session is_beacon_of_score Let_def)

lemma sendFinalData_no_beacon:
  assumes "\<not> hasSendBeacon st"
  shows "sendFinalData st now = st"
  using assms by (simp add: sendFinalData_def sendBeacon_def Let_def)

lemma sendFinalData_queues:
  "eventQueue (sendFinalData st now) = eventQueue st"
  "retryQueue (sendFinalData st now) = retryQueue st"
  "timers (sendFinalData st now) = timers st"
  "fetches (sendFinalData st now) = fetches st"
  by (simp_all add: sendFinalData_def sendBeacon_def Let_def)

lemma handle_page_exit:
  assumes "is_page_exit e"
  shows "handle net st e = sendFinalData st (fst e)"
  using assms by (cases e) (auto simp: is_page_exit_def handle_def)

text \<open>
  C8, as the claim states it, fails: the summary is sent at every occurrence,
  with nothing to remember that it was sent. A page that is hidden and later
  unloaded sends it twice; a browser without \<^verbatim>\<open>navigator.sendBeacon\<close> sends
  none.
\<close>

theorem final_summary_counterexample:
  "length (session_end_beacons (run_events always_ok idle_client
       [(60000, VisibilityHidden), (90000, BeforeUnload)])) = 2
   \<and> length (session_end_beacons (run_events always_ok (idle_client\<lparr>hasSendBeacon := False\<rparr>)
       [(90000, BeforeUnload)])) = 0"
  by (simp add: run_events_def handle_def sendFinalData_def sendBeacon_def
      session_end_beacons_def is_beacon_of_session is_beacon_of_score idle_client_def Let_def)

text \<open>
  C8, amended. On every page hide (\<^verbatim>\<open>visibilitychange\<close> to hidden) and every
  \<^verbatim>\<open>beforeunload\<close>, a browser that has \<^verbatim>\<open>navigator.sendBeacon\<close> sends the
  final summary (one beacon for the end of the session, one for the engagement
  score) once for that occurrence, so a sequence of \<open>n\<close> such occurrences sends
  it \<open>n\<close> times; without \<^verbatim>\<open>navigator.sendBeacon\<close> nothing is sent. The summary
  never goes through the event queue, the retry queue, a timer or \<^verbatim>\<open>fetch\<close>.
\<close>

theorem final_summary_per_exit:
  assumes "list_all is_page_exit es"
  shows "(hasSendBeacon st \<longrightarrow>
            length (session_end_beacons (run_events net st es))
              = length (session_end_beacons st) + length es
            \<and> length (score_beacons (run_events net st es))
              = length (score_beacons st) + length es)
    \<and> (\<not> hasSendBeacon st \<longrightarrow> beacons (run_events net st es) = beacons st)
    \<and> eventQueue (run_events net st es) = eventQueue st
    \<and> retryQueue (run_events net st es) = retryQueue st
    \<and> timers (run_events net st es) = timers st
    \<and> fetches (run_events net st es) = fetches st"
  using assms
proof (induction es arbitrary: st)
  case Nil
  then show ?case by (simp add: run_events_def)
next
  case (Cons e es)
  then have e: "is_page_exit e" and es: "list_all is_page_exit es"
    by simp_all
  let ?st1 = "sendFinalData st (fst e)"
  have unfold: "run_events net st (e # es) = run_events net ?st1 es"
    using handle_page_exit [OF e] by (simp add: run_events_def)
  note IH = Cons.IH [OF es, of ?st1]
  show ?case
  proof (cases "hasSendBeacon st")
    case True
    then show ?thesis
      using IH sendFinalData_beacons [OF True, of "fst e"]
      by (simp add: unfold sendFinalData_queues)
  next
    case False
    then show ?thesis
      using IH by (simp add: unfold sendFinalData_no_beacon)
  qed
qed

theorem final_summary_per_exit_witness:
  "length (session_end_beacons (run_events always_ok idle_client
       [(60000, VisibilityHidden), (61000, VisibilityHidden), (90000, BeforeUnload)])) = 3
   \<and> length (score_beacons (run_events always_ok idle_client
       [(60000, VisibilityHidden), (61000, VisibilityHidden), (90000, BeforeUnload)])) = 3
   \<and> retryQueue (run_events always_ok idle_client
       [(60000, VisibilityHidden), (61000, VisibilityHidden), (90000, BeforeUnload)]) = []"
  using final_summary_per_exit
    [of "[(60000, VisibilityHidden), (61000, VisibilityHidden), (90000, BeforeUnload)]"
        idle_client always_ok]
  by (simp add: is_page_exit_def idle_client_def session_end_beacons_def score_beacons_def)

end
